theory Spec2Isabelle
  imports Complex_Main "HOL-Library.Sublist"
begin

text \<open>
  A model of \<open>app.py\<close>, the price tracker's only module: the two tables, the client of
  the storefront's search and details endpoints, and the request handlers, followed by
  proofs of the properties its specification claims. Handlers are functions from the state
  (tables, log, flashed notices) to the new state and either a response or the exception
  that leaves the handler; the storefront is a parameter.
\<close>

section \<open>Strings: Python \<open>str\<close> operations and SQLite \<open>LIKE\<close>\<close>

text \<open>
  A Python \<open>str\<close>, and the text of a SQLite value, is the list of its Unicode code
  points, so \<open>length\<close> is Python's \<open>len\<close>. \<open>ascii\<close> gives the \<open>str\<close> of a literal
  written in ASCII.
\<close>

type_synonym str = "nat list"

definition ascii :: "string \<Rightarrow> str" where
  "ascii s = map of_char s"

text \<open>
  \<open>str.lower\<close> and the characters that \<open>str.split()\<close> takes as whitespace are given
  by the Unicode database of the interpreter, which is not part of the program: the model
  takes them as a parameter, and what is proved holds for every such database.
\<close>

record unicode_db =
  str_lower :: "str \<Rightarrow> str"
  isspace :: "nat \<Rightarrow> bool"

text \<open>
  \<open>s.split()\<close> (no separator): the maximal runs of non-whitespace characters, in order;
  runs of whitespace separate words and never produce an empty word.
  \<open>split_from ucd word s\<close> scans \<open>s\<close> with the characters of the current word collected
  in \<open>word\<close>.
\<close>

fun split_from :: "unicode_db \<Rightarrow> str \<Rightarrow> str \<Rightarrow> str list" where
  "split_from ucd word [] = (if word = [] then [] else [word])"
| "split_from ucd word (c # cs) =
     (if isspace ucd c
      then (if word = [] then split_from ucd [] cs else word # split_from ucd [] cs)
      else split_from ucd (word @ [c]) cs)"

definition py_split :: "unicode_db \<Rightarrow> str \<Rightarrow> str list" where
  "py_split ucd s = split_from ucd [] s"

text \<open>\<open>word in s\<close> on strings: \<open>word\<close> starts at some position of \<open>s\<close>.\<close>

fun py_in :: "str \<Rightarrow> str \<Rightarrow> bool" where
  "py_in word [] = (word = [])"
| "py_in word (c # cs) = (take (length word) (c # cs) = word \<or> py_in word cs)"

text \<open>
  SQLite folds case for the ASCII letters only, in \<open>lower()\<close> and in \<open>LIKE\<close>:
  \<open>A\<close>..\<open>Z\<close> (65..90) become \<open>a\<close>..\<open>z\<close>, every other character is left alone.
\<close>

definition sqlite_lower_char :: "nat \<Rightarrow> nat" where
  "sqlite_lower_char c = (if 65 \<le> c \<and> c \<le> 90 then c + 32 else c)"

definition sqlite_lower :: "str \<Rightarrow> str" where
  "sqlite_lower s = map sqlite_lower_char s"

text \<open>
  SQLite's \<open>LIKE\<close> (no escape character): \<open>%\<close> (37) in the pattern matches any run of
  characters, \<open>_\<close> (95) any single character, and any other character matches itself up
  to ASCII case. The first argument is the pattern, the second the text.
\<close>

fun sqlite_like :: "str \<Rightarrow> str \<Rightarrow> bool" where
  "sqlite_like [] [] = True"
| "sqlite_like [] (c # cs) = False"
| "sqlite_like (p # ps) [] = (p = 37 \<and> sqlite_like ps [])"
| "sqlite_like (p # ps) (c # cs) =
     (if p = 37 then sqlite_like ps (c # cs) \<or> sqlite_like (p # ps) cs
      else (p = 95 \<or> sqlite_lower_char p = sqlite_lower_char c) \<and> sqlite_like ps cs)"

text \<open>
  \<open>column.ilike(pattern)\<close>, which SQLAlchemy sends to SQLite as
  \<open>lower(column) LIKE lower(pattern)\<close>.
\<close>

definition ilike :: "str \<Rightarrow> str \<Rightarrow> bool" where
  "ilike column pattern = sqlite_like (sqlite_lower pattern) (sqlite_lower column)"

text \<open>An f-string field \<open>{game_name}\<close>: \<open>None\<close> is written as the text \<open>None\<close>.\<close>

definition py_format :: "str option \<Rightarrow> str" where
  "py_format v = (case v of None \<Rightarrow> ascii ''None'' | Some s \<Rightarrow> s)"


section \<open>Data model\<close>

text \<open>
  The two tables of \<open>app.py\<close>. A \<open>Float\<close> column and a Python float are modelled by the
  rational number they stand for, so \<open>/\<close> is exact division; the rounding of a quotient to
  the nearest double is not part of the model. \<open>steam_id\<close> is a text column that only ever
  receives the storefront's integer application id: SQLite stores the integer's decimal
  text and compares a bound integer by that text, so the column is modelled by the integer.
\<close>

record Game =
  Game_id :: int
  Game_name :: str
  Game_steam_id :: int
  Game_price :: rat

record Wishlist =
  Wishlist_id :: int
  Wishlist_game_id :: int
  Wishlist_target_price :: "rat option"

text \<open>
  The storefront's two JSON bodies, at the shape the client reads: an entry of
  \<open>items\<close> with its \<open>name\<close> and \<open>id\<close>, and a \<open>price_overview\<close> with its \<open>final\<close>
  price in minor units (\<open>None\<close> for a JSON \<open>null\<close>). A call either raises
  \<open>requests.RequestException\<close> (from \<open>requests.get\<close>, \<open>raise_for_status\<close> or
  \<open>json\<close>) or gives a body. Bodies of another shape (an item without \<open>name\<close>, a
  price overview without \<open>final\<close>), on which the client would raise \<open>KeyError\<close>, are
  not among the storefront's answers here.
\<close>

record search_item =
  item_name :: str
  item_id :: int

record price_overview =
  final :: "int option"

datatype 'a http = RequestException string | Body 'a

record steam_api =
  storesearch :: "str \<Rightarrow> search_item list http"
  appdetails :: "int \<Rightarrow> price_overview option http"

text \<open>The dictionaries \<open>get_steam_price_by_name\<close> returns.\<close>

record steam_game =
  steam_name :: str
  steam_appid :: int
  steam_price :: rat

text \<open>Exceptions that no handler of \<open>app.py\<close> catches.\<close>

datatype exn = AttributeError | IntegrityError | OverflowError

text \<open>The lines written to \<open>app.log\<close>, one constructor for each logging call.\<close>

datatype level = DEBUG | INFO | WARNING | ERROR

datatype update_form = Update_form "int option" "rat option"

datatype message =
    Api_request_error "str option" string
  | Failed_to_fetch_price_data int string
  | Search_requested "str option"
  | Database_search_returned nat
  | Found_locally_proceeding_to_update
  | Updated_or_added str rat
  | No_updated_results "str option"
  | Not_found_locally "str option"
  | Found_on_steam nat
  | Already_exists_updating_price str
  | No_results_on_steam "str option"
  | Attempting_to_add nat
  | Added_to_wishlist str "rat option"
  | Already_in_wishlist str
  | Game_not_found nat
  | Redirecting_to_wishlist
  | Fetching_wishlist_items
  | Fetched_wishlist_items "Wishlist list"
  | Wishlist_item_line Wishlist str "rat option"
  | Error_fetching_wishlist exn
  | Request_method
  | Request_URL
  | Request_form_data update_form
  | Attempting_to_update "int option" "rat option"
  | Invalid_form_data
  | Found_wishlist_item Wishlist
  | Successfully_updated str rat
  | No_wishlist_item_found int

text \<open>The notices given to \<open>flash\<close>, with their category.\<close>

datatype category = success | danger

datatype notice =
    Removed_from_wishlist str
  | Wishlist_item_not_found
  | Invalid_form_submission
  | Updated_target_price str rat

text \<open>
  What a handler returns. A template receives the session's row objects; an object is
  identified by its primary key and its attributes are read when the page is rendered, so
  a page is modelled by the list of primary keys it is given.
\<close>

datatype response =
    Index_page "int list option"
  | Wishlist_page "int list"
  | Redirect_wishlist

text \<open>The state a request runs in: the committed tables, the log file and the flashed notices.\<close>

record state =
  Game_table :: "Game list"
  Wishlist_table :: "Wishlist list"
  app_log :: "(level \<times> message) list"
  flashes :: "(notice \<times> category) list"

definition logging :: "level \<Rightarrow> message \<Rightarrow> state \<Rightarrow> state" where
  "logging l m s = s\<lparr>app_log := app_log s @ [(l, m)]\<rparr>"

definition flash :: "notice \<Rightarrow> category \<Rightarrow> state \<Rightarrow> state" where
  "flash n c s = s\<lparr>flashes := flashes s @ [(n, c)]\<rparr>"


section \<open>The price lookup client\<close>

text \<open>
  \<open>fetch_price_data\<close> (lines 86-95): a failed request is logged with the application
  id and gives \<open>None\<close>; otherwise the result is the body's \<open>price_overview\<close>, \<open>None\<close>
  when the body has none. The function returns the lines it logs.
\<close>

definition fetch_price_data ::
  "steam_api \<Rightarrow> int \<Rightarrow> (level \<times> message) list \<times> price_overview option" where
  "fetch_price_data api app_id =
     (case appdetails api app_id of
        RequestException e \<Rightarrow> ([(ERROR, Failed_to_fetch_price_data app_id e)], None)
      | Body price_data \<Rightarrow> ([], price_data))"

text \<open>
  The condition of line 72:
  \<open>all(word in game['name'].lower() for word in game_name.lower().split() if len(word) > 2)\<close>.
\<close>

definition all_words_in_name :: "unicode_db \<Rightarrow> str \<Rightarrow> str \<Rightarrow> bool" where
  "all_words_in_name ucd game_name name =
     list_all (\<lambda>word. py_in word (str_lower ucd name))
       (filter (\<lambda>word. 2 < length word) (py_split ucd (str_lower ucd game_name)))"

text \<open>Line 79: \<open>price_data['final'] / 100 if price_data['final'] else 0.0\<close>.\<close>

definition normalized_price :: "price_overview \<Rightarrow> rat" where
  "normalized_price price_data =
     (case final price_data of
        None \<Rightarrow> 0
      | Some cents \<Rightarrow> if cents \<noteq> 0 then of_int cents / 100 else 0)"

text \<open>
  The loop of lines 71-80 over \<open>search_results\<close>, with \<open>matching_games\<close> as accumulator.
  When the form had no \<open>game_name\<close> field the query is \<open>None\<close> and \<open>game_name.lower()\<close>
  raises \<open>AttributeError\<close> at the first item; the \<open>except\<close> clause catches only
  \<open>RequestException\<close>.
\<close>

fun matching_loop ::
  "unicode_db \<Rightarrow> steam_api \<Rightarrow> str option \<Rightarrow> search_item list \<Rightarrow> steam_game list \<Rightarrow>
   (level \<times> message) list \<times> (exn + steam_game list)" where
  "matching_loop ucd api game_name [] matching_games = ([], Inr matching_games)"
| "matching_loop ucd api game_name (game # search_results) matching_games =
     (case game_name of
        None \<Rightarrow> ([], Inl AttributeError)
      | Some q \<Rightarrow>
          if all_words_in_name ucd q (item_name game) then
            (case fetch_price_data api (item_id game) of
               (logged, None) \<Rightarrow>
                 (case matching_loop ucd api game_name search_results matching_games of
                    (later, r) \<Rightarrow> (logged @ later, r))
             | (logged, Some price_data) \<Rightarrow>
                 (case matching_loop ucd api game_name search_results
                         (matching_games @
                            [\<lparr>steam_name = item_name game, steam_appid = item_id game,
                              steam_price = normalized_price price_data\<rparr>]) of
                    (later, r) \<Rightarrow> (logged @ later, r)))
          else matching_loop ucd api game_name search_results matching_games)"

text \<open>
  \<open>get_steam_price_by_name\<close> (lines 62-84): a failed search request is logged with the
  query and gives the empty list.
\<close>

definition get_steam_price_by_name ::
  "unicode_db \<Rightarrow> steam_api \<Rightarrow> str option \<Rightarrow> (level \<times> message) list \<times> (exn + steam_game list)" where
  "get_steam_price_by_name ucd api game_name =
     (case storesearch api (py_format game_name) of
        RequestException e \<Rightarrow> ([(ERROR, Api_request_error game_name e)], Inr [])
      | Body search_results \<Rightarrow> matching_loop ucd api game_name search_results [])"


section \<open>Queries and row operations\<close>

text \<open>
  A table is the list of its rows in rowid order, the order in which SQLite scans it, so
  \<open>.first()\<close> is the first row of the list that satisfies the filter and \<open>.all()\<close>
  keeps the order of the list.
\<close>

definition Game_get :: "Game list \<Rightarrow> int \<Rightarrow> Game option" where
  "Game_get rows ident = find (\<lambda>g. Game_id g = ident) rows"

definition Wishlist_get :: "Wishlist list \<Rightarrow> int \<Rightarrow> Wishlist option" where
  "Wishlist_get rows ident = find (\<lambda>w. Wishlist_id w = ident) rows"

text \<open>\<open>Game.query.filter(Game.name.ilike(f"%{game_name}%")).all()\<close> (line 108).\<close>

definition filter_name_ilike :: "Game list \<Rightarrow> str option \<Rightarrow> Game list" where
  "filter_name_ilike rows game_name =
     filter (\<lambda>g. ilike (Game_name g) ([37] @ py_format game_name @ [37])) rows"

text \<open>\<open>Game.query.filter_by(steam_id=appid).first()\<close> (lines 118 and 136).\<close>

definition filter_by_steam_id_first :: "Game list \<Rightarrow> int \<Rightarrow> Game option" where
  "filter_by_steam_id_first rows appid = find (\<lambda>g. Game_steam_id g = appid) rows"

text \<open>\<open>Wishlist.query.filter_by(game_id=game.id).first()\<close> (line 157).\<close>

definition filter_by_game_id_first :: "Wishlist list \<Rightarrow> int \<Rightarrow> Wishlist option" where
  "filter_by_game_id_first rows ident = find (\<lambda>w. Wishlist_game_id w = ident) rows"

text \<open>
  Assigning to an attribute of a loaded row and flushing: \<open>UPDATE ... WHERE id = ?\<close>.
\<close>

definition set_price :: "int \<Rightarrow> rat \<Rightarrow> Game list \<Rightarrow> Game list" where
  "set_price ident p rows =
     map (\<lambda>g. if Game_id g = ident then g\<lparr>Game_price := p\<rparr> else g) rows"

definition set_target_price :: "int \<Rightarrow> rat option \<Rightarrow> Wishlist list \<Rightarrow> Wishlist list" where
  "set_target_price ident p rows =
     map (\<lambda>w. if Wishlist_id w = ident then w\<lparr>Wishlist_target_price := p\<rparr> else w) rows"

text \<open>\<open>db.session.delete(item)\<close> and flush: \<open>DELETE ... WHERE id = ?\<close>.\<close>

definition delete_row :: "int \<Rightarrow> Wishlist list \<Rightarrow> Wishlist list" where
  "delete_row ident rows = filter (\<lambda>w. Wishlist_id w \<noteq> ident) rows"

text \<open>
  The key SQLite gives a row inserted without one into a table with an
  \<open>INTEGER PRIMARY KEY\<close>: 1 in an empty table, otherwise the largest key plus one.
\<close>

definition next_rowid :: "int list \<Rightarrow> int" where
  "next_rowid idents = (case idents of [] \<Rightarrow> 1 | i # rest \<Rightarrow> fold max rest i + 1)"


section \<open>The search handler\<close>

text \<open>
  The loop of lines 117-122, run when the local query found rows: a returned item whose
  application id is already stored has its price updated and committed; any other item is
  skipped.
\<close>

fun update_loop :: "steam_game list \<Rightarrow> Game list \<Rightarrow> Game list" where
  "update_loop [] rows = rows"
| "update_loop (steam_game # steam_games) rows =
     (case filter_by_steam_id_first rows (steam_appid steam_game) of
        Some existing_game \<Rightarrow>
          update_loop steam_games (set_price (Game_id existing_game) (steam_price steam_game) rows)
      | None \<Rightarrow> update_loop steam_games rows)"

text \<open>
  The loop of lines 135-143, run when the local query found nothing. The session
  flushes before each query, so a row added for one item is seen by the query for the
  next; \<open>rows\<close> is the table as the session sees it and \<open>new_games\<close> the keys of the
  rows added so far. \<open>name\<close> is \<open>UNIQUE\<close>: the insert of a row whose name is already in
  the table raises \<open>IntegrityError\<close> at the flush, before any later line is logged.
\<close>

fun insert_loop ::
  "steam_game list \<Rightarrow> Game list \<Rightarrow> int list \<Rightarrow>
   (level \<times> message) list \<times> (exn + Game list \<times> int list)" where
  "insert_loop [] rows new_games = ([], Inr (rows, new_games))"
| "insert_loop (steam_game # steam_games) rows new_games =
     (case filter_by_steam_id_first rows (steam_appid steam_game) of
        Some existing_game \<Rightarrow>
          (case insert_loop steam_games
                  (set_price (Game_id existing_game) (steam_price steam_game) rows) new_games of
             (later, r) \<Rightarrow>
               ((DEBUG, Already_exists_updating_price (steam_name steam_game)) # later, r))
      | None \<Rightarrow>
          if steam_name steam_game \<in> set (map Game_name rows) then ([], Inl IntegrityError)
          else
            (let new_game = \<lparr>Game_id = next_rowid (map Game_id rows),
                             Game_name = steam_name steam_game,
                             Game_steam_id = steam_appid steam_game,
                             Game_price = steam_price steam_game\<rparr>
             in insert_loop steam_games (rows @ [new_game]) (new_games @ [Game_id new_game])))"

text \<open>
  \<open>search\<close> (lines 102-148). \<open>game_name\<close> is \<open>request.form.get('game_name')\<close>,
  \<open>None\<close> when the form has no such field. An exception leaves the handler with the
  tables as they were last committed.
\<close>

definition search ::
  "unicode_db \<Rightarrow> steam_api \<Rightarrow> str option \<Rightarrow> state \<Rightarrow> state \<times> (exn + response)" where
  "search ucd api game_name s0 =
     (let s1 = logging DEBUG (Search_requested game_name) s0;
          games = filter_name_ilike (Game_table s1) game_name;
          s2 = logging DEBUG (Database_search_returned (length games)) s1
      in
        if games \<noteq> [] then
          (let s3 = logging DEBUG Found_locally_proceeding_to_update s2 in
           case get_steam_price_by_name ucd api game_name of
             (logged, Inl e) \<Rightarrow> (s3\<lparr>app_log := app_log s3 @ logged\<rparr>, Inl e)
           | (logged, Inr steam_games) \<Rightarrow>
               (let s4 = s3\<lparr>app_log := app_log s3 @ logged\<rparr> in
                if steam_games \<noteq> [] then
                  (let s5 = s4\<lparr>Game_table := update_loop steam_games (Game_table s4)\<rparr>;
                       steam_game = last steam_games;
                       s6 = logging DEBUG
                              (Updated_or_added (steam_name steam_game) (steam_price steam_game)) s5
                   in (s6, Inr (Index_page (Some (map Game_id games)))))
                else
                  (logging DEBUG (No_updated_results game_name) s4,
                   Inr (Index_page (Some (map Game_id games))))))
        else
          (let s3 = logging DEBUG (Not_found_locally game_name) s2 in
           case get_steam_price_by_name ucd api game_name of
             (logged, Inl e) \<Rightarrow> (s3\<lparr>app_log := app_log s3 @ logged\<rparr>, Inl e)
           | (logged, Inr steam_games) \<Rightarrow>
               (let s4 = s3\<lparr>app_log := app_log s3 @ logged\<rparr> in
                if steam_games \<noteq> [] then
                  (let s5 = logging DEBUG (Found_on_steam (length steam_games)) s4 in
                   case insert_loop steam_games (Game_table s5) [] of
                     (lines, Inl e) \<Rightarrow> (s5\<lparr>app_log := app_log s5 @ lines\<rparr>, Inl e)
                   | (lines, Inr (rows, new_games)) \<Rightarrow>
                       (s5\<lparr>app_log := app_log s5 @ lines, Game_table := rows\<rparr>,
                        Inr (Index_page (Some new_games))))
                else
                  (logging DEBUG (No_results_on_steam game_name) s4,
                   Inr (Index_page (Some []))))))"


text \<open>\<open>index\<close> (lines 98-100): the landing page, given no rows.\<close>

definition index :: "state \<Rightarrow> state \<times> (exn + response)" where
  "index s = (s, Inr (Index_page None))"


section \<open>The wishlist handlers\<close>

text \<open>
  \<open>add_to_wishlist\<close> (lines 150-169). The route converter \<open><int:game_id>\<close> accepts
  only non-negative integers; \<open>target_price\<close> is
  \<open>request.form.get('target_price', type=float)\<close>, \<open>None\<close> when the field is missing
  or \<open>float\<close> rejects it.
\<close>

definition add_to_wishlist :: "nat \<Rightarrow> rat option \<Rightarrow> state \<Rightarrow> state \<times> (exn + response)" where
  "add_to_wishlist game_id target_price s0 =
     (let s1 = logging DEBUG (Attempting_to_add game_id) s0;
          s2 = (case Game_get (Game_table s1) (int game_id) of
                  Some game \<Rightarrow>
                    (case filter_by_game_id_first (Wishlist_table s1) (Game_id game) of
                       None \<Rightarrow>
                         (let new_wishlist_entry =
                                \<lparr>Wishlist_id = next_rowid (map Wishlist_id (Wishlist_table s1)),
                                 Wishlist_game_id = Game_id game,
                                 Wishlist_target_price = target_price\<rparr>
                          in logging DEBUG (Added_to_wishlist (Game_name game) target_price)
                               (s1\<lparr>Wishlist_table := Wishlist_table s1 @ [new_wishlist_entry]\<rparr>))
                     | Some existing_entry \<Rightarrow>
                         logging DEBUG (Already_in_wishlist (Game_name game)) s1)
                | None \<Rightarrow> logging DEBUG (Game_not_found game_id) s1)
      in (logging DEBUG Redirecting_to_wishlist s2, Inr Redirect_wishlist))"

text \<open>
  \<open>delete_from_wishlist\<close> (lines 171-181). The route converter \<open><int:wishlist_id>\<close>
  accepts every run of digits. \<open>Wishlist.query.get(wishlist_id)\<close> binds the key as a
  SQLite \<open>INTEGER\<close>, a signed 64-bit number: for a key of \<open>2 ^ 63\<close> or more the
  driver raises \<open>OverflowError\<close> before any row is read. \<open>item.game\<close> is the row of
  \<open>Game\<close> with key \<open>item.game_id\<close>, or \<open>None\<close>, on which \<open>.name\<close> raises
  \<open>AttributeError\<close>.
\<close>

definition delete_from_wishlist :: "nat \<Rightarrow> state \<Rightarrow> state \<times> (exn + response)" where
  "delete_from_wishlist wishlist_id s =
     (if 2 ^ 63 \<le> wishlist_id then (s, Inl OverflowError)
      else
        (case Wishlist_get (Wishlist_table s) (int wishlist_id) of
           Some item \<Rightarrow>
             (case Game_get (Game_table s) (Wishlist_game_id item) of
                None \<Rightarrow> (s, Inl AttributeError)
              | Some game \<Rightarrow>
                  (flash (Removed_from_wishlist (Game_name game)) success
                     (s\<lparr>Wishlist_table := delete_row (Wishlist_id item) (Wishlist_table s)\<rparr>),
                   Inr Redirect_wishlist))
         | None \<Rightarrow> (flash Wishlist_item_not_found danger s, Inr Redirect_wishlist)))"

text \<open>
  \<open>wishlist\<close> (lines 190-201). The loop of lines 196-197 logs one line for each item and
  reads \<open>item.game.name\<close>; the \<open>AttributeError\<close> of an item without a game is caught by
  \<open>except Exception\<close>, which logs it and renders the empty list.
\<close>

fun wishlist_lines :: "Game list \<Rightarrow> Wishlist list \<Rightarrow> (level \<times> message) list \<times> exn option" where
  "wishlist_lines games [] = ([], None)"
| "wishlist_lines games (item # wishlist_items) =
     (case Game_get games (Wishlist_game_id item) of
        None \<Rightarrow> ([], Some AttributeError)
      | Some game \<Rightarrow>
          (case wishlist_lines games wishlist_items of
             (later, r) \<Rightarrow>
               ((DEBUG, Wishlist_item_line item (Game_name game) (Wishlist_target_price item))
                  # later, r)))"

definition wishlist :: "state \<Rightarrow> state \<times> (exn + response)" where
  "wishlist s0 =
     (let s1 = logging DEBUG Fetching_wishlist_items s0;
          wishlist_items = Wishlist_table s1;
          s2 = logging INFO (Fetched_wishlist_items wishlist_items) s1
      in case wishlist_lines (Game_table s2) wishlist_items of
           (lines, None) \<Rightarrow>
             (s2\<lparr>app_log := app_log s2 @ lines\<rparr>,
              Inr (Wishlist_page (map Wishlist_id wishlist_items)))
         | (lines, Some e) \<Rightarrow>
             (logging ERROR (Error_fetching_wishlist e) (s2\<lparr>app_log := app_log s2 @ lines\<rparr>),
              Inr (Wishlist_page [])))"

text \<open>
  \<open>update_wishlist_item\<close> (lines 205-233). The two fields of the form are read with
  \<open>type=int\<close> and \<open>type=float\<close>: each is \<open>None\<close> when the field is missing or the
  conversion rejects its text. The guard of line 216 is
  \<open>not wishlist_id or new_target_price is None\<close>, and \<open>not wishlist_id\<close> is true
  for \<open>None\<close> and for \<open>0\<close>.
  The price is committed before \<open>item.game.name\<close> is read for the notice.
\<close>

definition update_wishlist_item ::
  "int option \<Rightarrow> rat option \<Rightarrow> state \<Rightarrow> state \<times> (exn + response)" where
  "update_wishlist_item wishlist_id new_target_price s0 =
     (let s1 = logging DEBUG Request_method s0;
          s2 = logging DEBUG Request_URL s1;
          s3 = logging DEBUG (Request_form_data (Update_form wishlist_id new_target_price)) s2;
          s4 = logging INFO (Attempting_to_update wishlist_id new_target_price) s3;
          invalid = (flash Invalid_form_submission danger (logging ERROR Invalid_form_data s4),
                     Inr Redirect_wishlist)
      in
        case wishlist_id of
          None \<Rightarrow> invalid
        | Some ident \<Rightarrow>
            if ident = 0 then invalid
            else
              (case new_target_price of
                 None \<Rightarrow> invalid
               | Some target \<Rightarrow>
                   (case Wishlist_get (Wishlist_table s4) ident of
                      Some item \<Rightarrow>
                        (let s5 = logging DEBUG (Found_wishlist_item item) s4;
                             s6 = s5\<lparr>Wishlist_table :=
                                       set_target_price (Wishlist_id item) (Some target)
                                         (Wishlist_table s5)\<rparr>
                         in case Game_get (Game_table s6) (Wishlist_game_id item) of
                              None \<Rightarrow> (s6, Inl AttributeError)
                            | Some game \<Rightarrow>
                                (flash (Updated_target_price (Game_name game) target) success
                                   (logging INFO
                                      (Successfully_updated (Game_name game) target) s6),
                                 Inr Redirect_wishlist))
                    | None \<Rightarrow>
                        (flash Wishlist_item_not_found danger
                           (logging WARNING (No_wishlist_item_found ident) s4),
                         Inr Redirect_wishlist))))"


section \<open>Example storefronts and databases\<close>

text \<open>
  A Unicode database for the examples, which are written in ASCII: on ASCII text its
  \<open>str_lower\<close> is \<open>str.lower\<close> (\<open>A\<close>..\<open>Z\<close> to \<open>a\<close>..\<open>z\<close>) and its whitespace is
  that of \<open>str.split()\<close> (TAB, LF, VT, FF, CR, the separators FS, GS, RS, US, and the
  space).
\<close>

definition basic_latin :: unicode_db where
  "basic_latin =
     \<lparr>str_lower = map (\<lambda>c. if 65 \<le> c \<and> c \<le> 90 then c + 32 else c),
      isspace = (\<lambda>c. (9 \<le> c \<and> c \<le> 13) \<or> (28 \<le> c \<and> c \<le> 32))\<rparr>"

text \<open>
  A storefront that answers every search with \<open>Portal\<close> (application 400, 4.99) and
  \<open>Portal 2\<close> (application 620, 19.99).
\<close>

definition portal_api :: steam_api where
  "portal_api =
     \<lparr>storesearch = (\<lambda>term. Body [\<lparr>item_name = ascii ''Portal'', item_id = 400\<rparr>,
                                   \<lparr>item_name = ascii ''Portal 2'', item_id = 620\<rparr>]),
      appdetails = (\<lambda>app_id. if app_id = 400 then Body (Some \<lparr>final = Some 499\<rparr>)
                              else if app_id = 620 then Body (Some \<lparr>final = Some 1999\<rparr>)
                              else RequestException ''404 Client Error'')\<rparr>"

text \<open>
  A storefront with two more candidates: the details request of application 410 fails and
  the details of application 420 carry no price.
\<close>

definition partial_api :: steam_api where
  "partial_api =
     \<lparr>storesearch = (\<lambda>term. Body [\<lparr>item_name = ascii ''Portal Demo'', item_id = 410\<rparr>,
                                   \<lparr>item_name = ascii ''Portal'', item_id = 400\<rparr>,
                                   \<lparr>item_name = ascii ''Portal Free'', item_id = 420\<rparr>,
                                   \<lparr>item_name = ascii ''Half-Life'', item_id = 70\<rparr>,
                                   \<lparr>item_name = ascii ''Portal 2'', item_id = 620\<rparr>]),
      appdetails = (\<lambda>app_id. if app_id = 400 then Body (Some \<lparr>final = Some 499\<rparr>)
                              else if app_id = 620 then Body (Some \<lparr>final = Some 1999\<rparr>)
                              else if app_id = 420 then Body None
                              else RequestException ''502 Server Error'')\<rparr>"


definition empty_state :: state where
  "empty_state = \<lparr>Game_table = [], Wishlist_table = [], app_log = [], flashes = []\<rparr>"

text \<open>A database that holds \<open>Portal\<close> at 9.99 and an empty wishlist.\<close>

definition portal_state :: state where
  "portal_state =
     \<lparr>Game_table = [\<lparr>Game_id = 1, Game_name = ascii ''Portal'', Game_steam_id = 400,
                      Game_price = 999 / 100\<rparr>],
      Wishlist_table = [], app_log = [], flashes = []\<rparr>"

text \<open>A database with two games, each on the wishlist.\<close>

definition wished_state :: state where
  "wished_state =
     \<lparr>Game_table = [\<lparr>Game_id = 1, Game_name = ascii ''Portal'', Game_steam_id = 400,
                      Game_price = 999 / 100\<rparr>,
                     \<lparr>Game_id = 2, Game_name = ascii ''Portal 2'', Game_steam_id = 620,
                      Game_price = 1999 / 100\<rparr>],
      Wishlist_table =
        [\<lparr>Wishlist_id = 1, Wishlist_game_id = 1, Wishlist_target_price = Some 5\<rparr>,
         \<lparr>Wishlist_id = 2, Wishlist_game_id = 2, Wishlist_target_price = None\<rparr>],
      app_log = [], flashes = []\<rparr>"


section \<open>Notions of the specification\<close>

text \<open>
  A whitespace-separated word of a string, in the specification's sense: a non-empty run of
  non-whitespace characters that is bounded on each side by whitespace or by an end of the
  string. It is stated without reference to \<open>py_split\<close>, which is shown below to
  compute exactly these words.
\<close>

definition whitespace_separated_word :: "unicode_db \<Rightarrow> str \<Rightarrow> str \<Rightarrow> bool" where
  "whitespace_separated_word ucd w s \<longleftrightarrow>
     w \<noteq> [] \<and> (\<forall>c \<in> set w. \<not> isspace ucd c) \<and>
     (\<exists>before after. s = before @ w @ after \<and>
        (before = [] \<or> isspace ucd (last before)) \<and>
        (after = [] \<or> isspace ucd (hd after)))"

text \<open>
  What the schema promises of the tables: primary keys are distinct, game names are unique,
  every wishlist entry refers to a stored game, and (the intent of the check in
  \<open>add_to_wishlist\<close>) no game has two wishlist entries.
\<close>

definition consistent :: "state \<Rightarrow> bool" where
  "consistent s \<longleftrightarrow>
     distinct (map Game_id (Game_table s)) \<and>
     distinct (map Game_name (Game_table s)) \<and>
     distinct (map Wishlist_id (Wishlist_table s)) \<and>
     distinct (map Wishlist_game_id (Wishlist_table s)) \<and>
     set (map Wishlist_game_id (Wishlist_table s)) \<subseteq> set (map Game_id (Game_table s))"

text \<open>
  The states that requests handled one after another reach from the empty database,
  whatever the storefront answers and whether or not a handler raises.
\<close>

inductive reachable :: "state \<Rightarrow> bool" where
  start: "reachable empty_state"
| after_search: "reachable s \<Longrightarrow> reachable (fst (search ucd api game_name s))"
| after_add: "reachable s \<Longrightarrow> reachable (fst (add_to_wishlist game_id target_price s))"
| after_delete: "reachable s \<Longrightarrow> reachable (fst (delete_from_wishlist wishlist_id s))"
| after_wishlist: "reachable s \<Longrightarrow> reachable (fst (wishlist s))"
| after_update:
    "reachable s \<Longrightarrow> reachable (fst (update_wishlist_item wishlist_ident new_target_price s))"


section \<open>Basic facts\<close>

lemma find_Some_D: "find P xs = Some x \<Longrightarrow> P x \<and> x \<in> set xs"
  by (induction xs) (auto split: if_splits)

lemma find_None_filter: "find P xs = None \<longleftrightarrow> filter P xs = []"
  by (induction xs) auto

lemma find_distinct_key:
  "distinct (map f xs) \<Longrightarrow> x \<in> set xs \<Longrightarrow> find (\<lambda>y. f y = f x) xs = Some x"
  by (induction xs) (auto simp: image_iff)

lemma filter_neq_remove1:
  "distinct (map f xs) \<Longrightarrow> x \<in> set xs \<Longrightarrow> filter (\<lambda>y. f y \<noteq> f x) xs = remove1 x xs"
proof (induction xs)
  case Nil
  then show ?case by simp
next
  case (Cons a xs)
  show ?case
  proof (cases "a = x")
    case True
    then have "\<forall>y\<in>set xs. f y \<noteq> f x" using Cons.prems(1) by (auto simp: image_iff)
    then have "filter (\<lambda>y. f y \<noteq> f x) xs = xs" by (simp add: filter_id_conv)
    with True show ?thesis by simp
  next
    case False
    then have "x \<in> set xs" using Cons.prems(2) by simp
    moreover have "f a \<noteq> f x" using Cons.prems(1) \<open>x \<in> set xs\<close> by (auto simp: image_iff)
    ultimately show ?thesis using Cons False by simp
  qed
qed

text \<open>\<open>word in s\<close> holds exactly when \<open>s\<close> is some text, then \<open>word\<close>, then some text.\<close>

lemma py_in_iff: "py_in word s \<longleftrightarrow> (\<exists>before after. s = before @ word @ after)"
proof (induction s)
  case Nil
  show ?case by auto
next
  case (Cons c cs)
  show ?case
  proof
    assume "py_in word (c # cs)"
    then consider "take (length word) (c # cs) = word" | "py_in word cs" by auto
    then show "\<exists>before after. c # cs = before @ word @ after"
    proof cases
      case 1
      then have "c # cs = [] @ word @ drop (length word) (c # cs)"
        by (metis append_Nil append_take_drop_id)
      then show ?thesis by blast
    next
      case 2
      then obtain before after where "cs = before @ word @ after" using Cons.IH by blast
      then have "c # cs = (c # before) @ word @ after" by simp
      then show ?thesis by blast
    qed
  next
    assume "\<exists>before after. c # cs = before @ word @ after"
    then obtain before after where eq: "c # cs = before @ word @ after" by blast
    show "py_in word (c # cs)"
    proof (cases "before = []")
      case True
      with eq have "take (length word) (c # cs) = word" by (metis append_Nil append_eq_conv_conj)
      then show ?thesis by simp
    next
      case False
      then obtain b bs where "before = b # bs" by (cases before) auto
      with eq have "cs = bs @ word @ after" by simp
      then have "py_in word cs" using Cons.IH by blast
      then show ?thesis by simp
    qed
  qed
qed

text \<open>A new key is larger than every key of the table.\<close>

lemma fold_max_ge_init: "(i::int) \<le> fold max rest i"
proof (induction rest arbitrary: i)
  case Nil
  show ?case by simp
next
  case (Cons a rest)
  have "i \<le> max a i" by simp
  also have "max a i \<le> fold max rest (max a i)" by (rule Cons.IH)
  finally show ?case by simp
qed

lemma fold_max_ge_elem: "x \<in> set rest \<Longrightarrow> x \<le> fold max rest (i::int)"
proof (induction rest arbitrary: i)
  case Nil
  then show ?case by simp
next
  case (Cons a rest)
  show ?case
  proof (cases "x = a")
    case True
    have "a \<le> max a i" by simp
    also have "max a i \<le> fold max rest (max a i)" by (rule fold_max_ge_init)
    finally show ?thesis using True by simp
  next
    case False
    with Cons.prems have "x \<in> set rest" by simp
    then show ?thesis using Cons.IH by simp
  qed
qed

lemma next_rowid_greater: "x \<in> set idents \<Longrightarrow> x < next_rowid idents"
proof (cases idents)
  case Nil
  assume "x \<in> set idents"
  with Nil show ?thesis by simp
next
  case (Cons i rest)
  assume "x \<in> set idents"
  with Cons have "x \<le> fold max rest i"
    using fold_max_ge_init[of i rest] fold_max_ge_elem[of x rest i] by auto
  with Cons show ?thesis by (simp add: next_rowid_def)
qed

lemma next_rowid_fresh: "next_rowid idents \<notin> set idents"
  using next_rowid_greater[of "next_rowid idents" idents] by auto

lemma set_price_ids: "map Game_id (set_price ident p rows) = map Game_id rows"
  by (induction rows) (simp_all add: set_price_def)

lemma set_price_names: "map Game_name (set_price ident p rows) = map Game_name rows"
  by (induction rows) (simp_all add: set_price_def)

lemma set_price_steam_ids: "map Game_steam_id (set_price ident p rows) = map Game_steam_id rows"
  by (induction rows) (simp_all add: set_price_def)


section \<open>Words and patterns\<close>

text \<open>
  \<open>py_split\<close> returns exactly the whitespace-separated words of its argument, whatever
  the database takes as whitespace.
\<close>

lemma word_of_spaceless:
  assumes "\<forall>c \<in> set t. \<not> isspace ucd c"
  shows "whitespace_separated_word ucd w t \<longleftrightarrow> (w = t \<and> t \<noteq> [])"
proof
  assume "whitespace_separated_word ucd w t"
  then obtain before after where w: "w \<noteq> []" and eq: "t = before @ w @ after"
    and b: "before = [] \<or> isspace ucd (last before)"
    and a: "after = [] \<or> isspace ucd (hd after)"
    by (auto simp: whitespace_separated_word_def)
  have "before = []"
  proof (rule ccontr)
    assume "before \<noteq> []"
    then have "last before \<in> set t" using eq by simp
    then show False using assms b \<open>before \<noteq> []\<close> by blast
  qed
  moreover have "after = []"
  proof (rule ccontr)
    assume "after \<noteq> []"
    then have "hd after \<in> set t" using eq by simp
    then show False using assms a \<open>after \<noteq> []\<close> by blast
  qed
  ultimately show "w = t \<and> t \<noteq> []" using eq w by simp
next
  assume wt: "w = t \<and> t \<noteq> []"
  then have "t = [] @ w @ [] \<and> ([] = [] \<or> isspace ucd (last [])) \<and>
      ([] = [] \<or> isspace ucd (hd []))" by simp
  then have "\<exists>before after. t = before @ w @ after \<and>
      (before = [] \<or> isspace ucd (last before)) \<and> (after = [] \<or> isspace ucd (hd after))"
    by blast
  then show "whitespace_separated_word ucd w t"
    using assms wt by (simp add: whitespace_separated_word_def)
qed

lemma word_across_space:
  assumes c: "isspace ucd c"
  shows "whitespace_separated_word ucd w (t @ c # u) \<longleftrightarrow>
         whitespace_separated_word ucd w t \<or> whitespace_separated_word ucd w u"
proof
  assume "whitespace_separated_word ucd w (t @ c # u)"
  then obtain before after where w: "w \<noteq> []" and ns: "\<forall>c \<in> set w. \<not> isspace ucd c"
    and eq: "t @ c # u = before @ w @ after"
    and b: "before = [] \<or> isspace ucd (last before)"
    and a: "after = [] \<or> isspace ucd (hd after)"
    by (auto simp: whitespace_separated_word_def)
  from eq obtain r where
    "(t = before @ r \<and> r @ c # u = w @ after) \<or> (t @ r = before \<and> c # u = r @ w @ after)"
    unfolding append_eq_append_conv2 by blast
  then show "whitespace_separated_word ucd w t \<or> whitespace_separated_word ucd w u"
  proof
    assume left: "t = before @ r \<and> r @ c # u = w @ after"
    then obtain r2 where
      "(r = w @ r2 \<and> r2 @ c # u = after) \<or> (r @ r2 = w \<and> c # u = r2 @ after)"
      unfolding append_eq_append_conv2 by blast
    then have in_t: "\<exists>r3. r = w @ r3 \<and> r3 @ c # u = after"
    proof
      assume "r = w @ r2 \<and> r2 @ c # u = after"
      then show ?thesis by blast
    next
      assume straddle: "r @ r2 = w \<and> c # u = r2 @ after"
      show ?thesis
      proof (cases r2)
        case Nil
        with straddle have "r = w @ [] \<and> [] @ c # u = after" by simp
        then show ?thesis by blast
      next
        case (Cons x xs)
        with straddle have "x = c" and "x \<in> set w" by auto
        then show ?thesis using ns c by blast
      qed
    qed
    then obtain r3 where r3: "r = w @ r3" "r3 @ c # u = after" by blast
    have "t = before @ w @ r3" using left r3(1) by simp
    moreover have "r3 = [] \<or> isspace ucd (hd r3)"
    proof (cases r3)
      case Nil
      then show ?thesis by simp
    next
      case (Cons x xs)
      then have "hd after = hd r3" and "after \<noteq> []" using r3(2) by auto
      then show ?thesis using a by auto
    qed
    ultimately have "\<exists>before' after'. t = before' @ w @ after' \<and>
        (before' = [] \<or> isspace ucd (last before')) \<and> (after' = [] \<or> isspace ucd (hd after'))"
      using b by blast
    then have "whitespace_separated_word ucd w t"
      using w ns by (simp add: whitespace_separated_word_def)
    then show ?thesis ..
  next
    assume right: "t @ r = before \<and> c # u = r @ w @ after"
    have "r \<noteq> []"
    proof
      assume "r = []"
      with right have "c # u = w @ after" by simp
      with w have "c \<in> set w" by (cases w) auto
      then show False using ns c by blast
    qed
    with right obtain r' where r: "r = c # r'" "u = r' @ w @ after"
      by (cases r) auto
    have "r' = [] \<or> isspace ucd (last r')"
    proof (cases "r' = []")
      case True
      then show ?thesis by simp
    next
      case False
      then have "last before = last r'" and "before \<noteq> []" using right r(1) by auto
      then show ?thesis using b by auto
    qed
    then have "\<exists>before' after'. u = before' @ w @ after' \<and>
        (before' = [] \<or> isspace ucd (last before')) \<and> (after' = [] \<or> isspace ucd (hd after'))"
      using a r(2) by blast
    then have "whitespace_separated_word ucd w u"
      using w ns by (simp add: whitespace_separated_word_def)
    then show ?thesis ..
  qed
next
  assume "whitespace_separated_word ucd w t \<or> whitespace_separated_word ucd w u"
  then show "whitespace_separated_word ucd w (t @ c # u)"
  proof
    assume "whitespace_separated_word ucd w t"
    then obtain before after where w: "w \<noteq> []" and ns: "\<forall>c \<in> set w. \<not> isspace ucd c"
      and eq: "t = before @ w @ after"
      and b: "before = [] \<or> isspace ucd (last before)"
      and a: "after = [] \<or> isspace ucd (hd after)"
      by (auto simp: whitespace_separated_word_def)
    have "t @ c # u = before @ w @ (after @ c # u)" using eq by simp
    moreover have "isspace ucd (hd (after @ c # u))" using a c by (cases after) auto
    ultimately have "\<exists>before' after'. t @ c # u = before' @ w @ after' \<and>
        (before' = [] \<or> isspace ucd (last before')) \<and> (after' = [] \<or> isspace ucd (hd after'))"
      using b by blast
    then show ?thesis
      using w ns by (simp add: whitespace_separated_word_def)
  next
    assume "whitespace_separated_word ucd w u"
    then obtain before after where w: "w \<noteq> []" and ns: "\<forall>c \<in> set w. \<not> isspace ucd c"
      and eq: "u = before @ w @ after"
      and b: "before = [] \<or> isspace ucd (last before)"
      and a: "after = [] \<or> isspace ucd (hd after)"
      by (auto simp: whitespace_separated_word_def)
    have "t @ c # u = (t @ c # before) @ w @ after" using eq by simp
    moreover have "isspace ucd (last (t @ c # before))" using b c by (cases "before = []") auto
    ultimately have "\<exists>before' after'. t @ c # u = before' @ w @ after' \<and>
        (before' = [] \<or> isspace ucd (last before')) \<and> (after' = [] \<or> isspace ucd (hd after'))"
      using a by blast
    then show ?thesis
      using w ns by (simp add: whitespace_separated_word_def)
  qed
qed

lemma no_word_of_Nil: "\<not> whitespace_separated_word ucd w []"
  by (auto simp: whitespace_separated_word_def)

lemma split_from_words:
  "\<forall>c \<in> set word. \<not> isspace ucd c \<Longrightarrow>
   set (split_from ucd word s) = {w. whitespace_separated_word ucd w (word @ s)}"
proof (induction s arbitrary: word)
  case Nil
  then show ?case by (auto simp: word_of_spaceless)
next
  case (Cons c cs)
  show ?case
  proof (cases "isspace ucd c")
    case True
    have "set (split_from ucd [] cs) = {w. whitespace_separated_word ucd w cs}"
      using Cons.IH[of "[]"] by simp
    then show ?thesis
      using True Cons.prems by (auto simp: word_across_space word_of_spaceless)
  next
    case False
    then have "\<forall>c \<in> set (word @ [c]). \<not> isspace ucd c" using Cons.prems by simp
    from Cons.IH[OF this] show ?thesis using False by simp
  qed
qed

lemma py_split_words: "set (py_split ucd s) = {w. whitespace_separated_word ucd w s}"
  using split_from_words[of "[]" ucd s] by (simp add: py_split_def)

text \<open>
  For a query without the wildcard characters \<open>%\<close> and \<open>_\<close>, the pattern of line 108
  selects the names that contain the query up to ASCII case: the local query is the
  case-insensitive substring test of the specification. A query with a wildcard character
  is matched as a \<open>LIKE\<close> pattern.
\<close>

lemma sqlite_lower_char_idem: "sqlite_lower_char (sqlite_lower_char c) = sqlite_lower_char c"
  by (simp add: sqlite_lower_char_def)

lemma sqlite_lower_char_wildcard:
  "sqlite_lower_char c = 37 \<longleftrightarrow> c = 37" "sqlite_lower_char c = 95 \<longleftrightarrow> c = 95"
  by (auto simp: sqlite_lower_char_def)

lemma like_percent:
  "sqlite_like (37 # ps) t \<longleftrightarrow> (\<exists>k\<le>length t. sqlite_like ps (drop k t))"
proof (induction t)
  case Nil
  show ?case by simp
next
  case (Cons c cs)
  show ?case
  proof
    assume "sqlite_like (37 # ps) (c # cs)"
    then consider "sqlite_like ps (c # cs)" | "sqlite_like (37 # ps) cs" by auto
    then show "\<exists>k\<le>length (c # cs). sqlite_like ps (drop k (c # cs))"
    proof cases
      case 1
      then have "0 \<le> length (c # cs) \<and> sqlite_like ps (drop 0 (c # cs))" by simp
      then show ?thesis by blast
    next
      case 2
      then obtain k where "k \<le> length cs" "sqlite_like ps (drop k cs)" using Cons.IH by blast
      then have "Suc k \<le> length (c # cs) \<and> sqlite_like ps (drop (Suc k) (c # cs))" by simp
      then show ?thesis by blast
    qed
  next
    assume "\<exists>k\<le>length (c # cs). sqlite_like ps (drop k (c # cs))"
    then obtain k where k: "k \<le> length (c # cs)" "sqlite_like ps (drop k (c # cs))" by blast
    show "sqlite_like (37 # ps) (c # cs)"
    proof (cases k)
      case 0
      with k show ?thesis by simp
    next
      case (Suc j)
      with k have "j \<le> length cs" "sqlite_like ps (drop j cs)" by simp_all
      then have "sqlite_like (37 # ps) cs" using Cons.IH by blast
      then show ?thesis by simp
    qed
  qed
qed

lemma like_literal:
  assumes "\<forall>c\<in>set q. c \<noteq> 37 \<and> c \<noteq> 95"
  shows "sqlite_like (q @ ps) t \<longleftrightarrow>
           length q \<le> length t \<and> map sqlite_lower_char (take (length q) t) = map sqlite_lower_char q \<and>
           sqlite_like ps (drop (length q) t)"
  using assms
proof (induction q arbitrary: t)
  case Nil
  show ?case by simp
next
  case (Cons p q)
  then have IH: "\<And>t. sqlite_like (q @ ps) t \<longleftrightarrow>
           length q \<le> length t \<and> map sqlite_lower_char (take (length q) t) = map sqlite_lower_char q \<and>
           sqlite_like ps (drop (length q) t)" by simp
  from Cons.prems have p: "p \<noteq> 37" "p \<noteq> 95" by simp_all
  show ?case
  proof (cases t)
    case Nil
    with p show ?thesis by simp
  next
    case (Cons c cs)
    with p IH[of cs] show ?thesis by auto
  qed
qed

lemma like_substring:
  assumes "\<forall>c\<in>set q. c \<noteq> 37 \<and> c \<noteq> 95"
  shows "sqlite_like (37 # q @ [37]) t \<longleftrightarrow>
           (\<exists>before after. map sqlite_lower_char t = before @ map sqlite_lower_char q @ after)"
proof -
  have all: "sqlite_like [37] u" for u
    using like_percent[of "[]" u] by (auto intro: exI[of _ "length u"])
  have lit: "sqlite_like (q @ [37]) u \<longleftrightarrow>
      length q \<le> length u \<and> map sqlite_lower_char (take (length q) u) = map sqlite_lower_char q" for u
    using like_literal[OF assms, of "[37]" u] all[of "drop (length q) u"] by blast
  have "sqlite_like (37 # q @ [37]) t \<longleftrightarrow>
      (\<exists>k\<le>length t. sqlite_like (q @ [37]) (drop k t))"
    by (rule like_percent)
  also have "\<dots> \<longleftrightarrow>
      (\<exists>k\<le>length t. length q \<le> length (drop k t) \<and>
          map sqlite_lower_char (take (length q) (drop k t)) = map sqlite_lower_char q)"
    unfolding lit ..
  also have "\<dots> \<longleftrightarrow> (\<exists>before after. map sqlite_lower_char t = before @ map sqlite_lower_char q @ after)"
  proof
    assume "\<exists>k\<le>length t. length q \<le> length (drop k t) \<and>
          map sqlite_lower_char (take (length q) (drop k t)) = map sqlite_lower_char q"
    then obtain k where k: "k \<le> length t" "length q \<le> length (drop k t)"
      "map sqlite_lower_char (take (length q) (drop k t)) = map sqlite_lower_char q" by blast
    have "t = take k t @ take (length q) (drop k t) @ drop (length q) (drop k t)"
      by (simp only: append_take_drop_id)
    then have "map sqlite_lower_char t = map sqlite_lower_char (take k t) @
        map sqlite_lower_char (take (length q) (drop k t)) @
        map sqlite_lower_char (drop (length q) (drop k t))"
      by (metis map_append)
    with k(3) show "\<exists>before after. map sqlite_lower_char t = before @ map sqlite_lower_char q @ after"
      by metis
  next
    assume "\<exists>before after. map sqlite_lower_char t = before @ map sqlite_lower_char q @ after"
    then obtain before after where eq: "map sqlite_lower_char t = before @ map sqlite_lower_char q @ after"
      by blast
    let ?k = "length before"
    have len: "length t = length before + length q + length after"
      using arg_cong[OF eq, of length] by simp
    have "map sqlite_lower_char (drop ?k t) = map sqlite_lower_char q @ after"
      using arg_cong[OF eq, of "drop ?k"] by (simp add: drop_map)
    then have "take (length q) (map sqlite_lower_char (drop ?k t)) = map sqlite_lower_char q"
      by simp
    then have "map sqlite_lower_char (take (length q) (drop ?k t)) = map sqlite_lower_char q"
      by (simp only: take_map)
    with len have "?k \<le> length t \<and> length q \<le> length (drop ?k t) \<and>
          map sqlite_lower_char (take (length q) (drop ?k t)) = map sqlite_lower_char q" by simp
    then show "\<exists>k\<le>length t. length q \<le> length (drop k t) \<and>
          map sqlite_lower_char (take (length q) (drop k t)) = map sqlite_lower_char q" by blast
  qed
  finally show ?thesis .
qed

lemma ilike_substring:
  assumes "\<forall>c\<in>set q. c \<noteq> 37 \<and> c \<noteq> 95"
  shows "ilike name ([37] @ q @ [37]) \<longleftrightarrow>
           (\<exists>before after. sqlite_lower name = before @ sqlite_lower q @ after)"
proof -
  have wild: "\<forall>c\<in>set (sqlite_lower q). c \<noteq> 37 \<and> c \<noteq> 95"
    using assms by (auto simp: sqlite_lower_def sqlite_lower_char_wildcard)
  have pat: "sqlite_lower ([37] @ q @ [37]) = 37 # sqlite_lower q @ [37]"
    by (simp add: sqlite_lower_def sqlite_lower_char_wildcard)
  have idem: "map sqlite_lower_char (sqlite_lower u) = sqlite_lower u" for u
    by (simp add: sqlite_lower_def sqlite_lower_char_idem)
  show ?thesis
    unfolding ilike_def pat like_substring[OF wild] idem ..
qed

lemma filter_name_ilike_substring:
  assumes "\<forall>c\<in>set q. c \<noteq> 37 \<and> c \<noteq> 95"
  shows "filter_name_ilike rows (Some q) =
     filter (\<lambda>g. \<exists>before after. sqlite_lower (Game_name g) = before @ sqlite_lower q @ after) rows"
proof -
  have "ilike (Game_name g) ([37] @ q @ [37]) \<longleftrightarrow>
      (\<exists>before after. sqlite_lower (Game_name g) = before @ sqlite_lower q @ after)" for g :: Game
    by (rule ilike_substring[OF assms])
  then show ?thesis
    by (simp add: filter_name_ilike_def py_format_def del: append_Cons)
qed


section \<open>The lookup client, in closed form\<close>

text \<open>
  With a query that is a string, the loop of \<open>get_steam_price_by_name\<close> never raises. Its
  result is read off the candidates that pass the filter of line 72, in order: the log has
  one line for each candidate whose details request failed, and the list one dictionary
  for each candidate whose details carry a price.
\<close>

lemma matching_loop_Some:
  "matching_loop ucd api (Some q) search_results matching_games =
     (concat (map (\<lambda>game. case appdetails api (item_id game) of
                              RequestException e \<Rightarrow>
                                [(ERROR, Failed_to_fetch_price_data (item_id game) e)]
                            | Body price_data \<Rightarrow> [])
                  (filter (\<lambda>game. all_words_in_name ucd q (item_name game)) search_results)),
      Inr (matching_games @
           concat (map (\<lambda>game. case appdetails api (item_id game) of
                                   Body (Some price_data) \<Rightarrow>
                                     [\<lparr>steam_name = item_name game, steam_appid = item_id game,
                                       steam_price = normalized_price price_data\<rparr>]
                                 | _ \<Rightarrow> [])
                  (filter (\<lambda>game. all_words_in_name ucd q (item_name game)) search_results))))"
proof (induction search_results arbitrary: matching_games)
  case Nil
  show ?case by simp
next
  case (Cons game search_results)
  show ?case
  proof (cases "all_words_in_name ucd q (item_name game)")
    case False
    then show ?thesis by (simp add: Cons.IH)
  next
    case True
    show ?thesis
    proof (cases "appdetails api (item_id game)")
      case (RequestException e)
      with True show ?thesis by (simp add: Cons.IH fetch_price_data_def)
    next
      case (Body price_data)
      with True show ?thesis
        by (cases price_data) (simp_all add: Cons.IH fetch_price_data_def)
    qed
  qed
qed

lemma normalized_price_eq:
  "normalized_price price_data =
     (case final price_data of None \<Rightarrow> 0 | Some cents \<Rightarrow> of_int cents / 100)"
  by (simp add: normalized_price_def split: option.split)


section \<open>Facts about the examples\<close>

lemma portal_state_matches:
  "filter_name_ilike (Game_table portal_state) (Some (ascii ''Portal'')) = Game_table portal_state"
  by code_simp

lemma empty_state_matches: "filter_name_ilike (Game_table empty_state) game_name = []"
  by (simp add: empty_state_def filter_name_ilike_def)

lemma portal_lookup:
  "get_steam_price_by_name basic_latin portal_api (Some (ascii ''Portal'')) =
     ([], Inr [\<lparr>steam_name = ascii ''Portal'', steam_appid = 400, steam_price = 499 / 100\<rparr>,
               \<lparr>steam_name = ascii ''Portal 2'', steam_appid = 620, steam_price = 1999 / 100\<rparr>])"
  by code_simp

lemma partial_lookup:
  "get_steam_price_by_name basic_latin partial_api (Some (ascii ''portal'')) =
     ([(ERROR, Failed_to_fetch_price_data 410 ''502 Server Error'')],
      Inr [\<lparr>steam_name = ascii ''Portal'', steam_appid = 400, steam_price = 499 / 100\<rparr>,
           \<lparr>steam_name = ascii ''Portal 2'', steam_appid = 620, steam_price = 1999 / 100\<rparr>])"
  by code_simp

lemma search_portal_empty_state:
  "search basic_latin portal_api (Some (ascii ''Portal'')) empty_state =
     (\<lparr>Game_table = [\<lparr>Game_id = 1, Game_name = ascii ''Portal'', Game_steam_id = 400,
                      Game_price = 499 / 100\<rparr>,
                     \<lparr>Game_id = 2, Game_name = ascii ''Portal 2'', Game_steam_id = 620,
                      Game_price = 1999 / 100\<rparr>],
       Wishlist_table = [],
       app_log = [(DEBUG, Search_requested (Some (ascii ''Portal''))),
                  (DEBUG, Database_search_returned 0),
                  (DEBUG, Not_found_locally (Some (ascii ''Portal''))),
                  (DEBUG, Found_on_steam 2)],
       flashes = []\<rparr>,
      Inr (Index_page (Some [1, 2])))"
  by (simp add: search_def Let_def logging_def empty_state_matches portal_lookup)
     (simp add: empty_state_def filter_by_steam_id_first_def next_rowid_def ascii_def)

lemma search_portal_portal_state:
  "search basic_latin portal_api (Some (ascii ''Portal'')) portal_state =
     (\<lparr>Game_table = [\<lparr>Game_id = 1, Game_name = ascii ''Portal'', Game_steam_id = 400,
                      Game_price = 499 / 100\<rparr>],
       Wishlist_table = [],
       app_log = [(DEBUG, Search_requested (Some (ascii ''Portal''))),
                  (DEBUG, Database_search_returned 1),
                  (DEBUG, Found_locally_proceeding_to_update),
                  (DEBUG, Updated_or_added (ascii ''Portal 2'') (1999 / 100))],
       flashes = []\<rparr>,
      Inr (Index_page (Some [1])))"
  by (simp add: search_def Let_def logging_def portal_state_matches portal_lookup)
     (simp add: portal_state_def filter_by_steam_id_first_def set_price_def)


section \<open>Invalid submissions to the update handler\<close>

text \<open>
  Claim C9. When the \<open>target_price\<close> field of an update request is missing or is not
  accepted by \<open>float\<close>, the handler logs the request, flashes the notice
  \<open>Invalid form submission.\<close> in category \<open>danger\<close> and redirects to the wishlist
  view. The state it leaves is the state it found with five lines added to the log and one
  notice flashed: the outcome does not depend on the tables, which are neither read nor
  written, and every stored target price is as before.
\<close>

theorem update_wishlist_item_without_target_price:
  "update_wishlist_item wishlist_id None s =
     (s\<lparr>app_log := app_log s @
          [(DEBUG, Request_method), (DEBUG, Request_URL),
           (DEBUG, Request_form_data (Update_form wishlist_id None)),
           (INFO, Attempting_to_update wishlist_id None),
           (ERROR, Invalid_form_data)],
        flashes := flashes s @ [(Invalid_form_submission, danger)]\<rparr>,
      Inr Redirect_wishlist)"
  by (simp add: update_wishlist_item_def logging_def flash_def Let_def split: option.split)

theorem update_wishlist_item_without_target_price_witness:
  "Wishlist_table (fst (update_wishlist_item (Some 1) None wished_state)) =
     Wishlist_table wished_state \<and>
   Game_table (fst (update_wishlist_item (Some 1) None wished_state)) =
     Game_table wished_state \<and>
   flashes (fst (update_wishlist_item (Some 1) None wished_state)) =
     [(Invalid_form_submission, danger)] \<and>
   snd (update_wishlist_item (Some 1) None wished_state) = Inr Redirect_wishlist"
  using update_wishlist_item_without_target_price [of "Some 1" wished_state]
  by (simp add: wished_state_def)

text \<open>
  Claim C10. A submitted \<open>wishlist_id\<close> that parses to the integer 0 is handled as an
  invalid submission, whatever the target price: the guard of line 216 tests
  \<open>not wishlist_id\<close>, which holds for 0. The handler flashes
  \<open>Invalid form submission.\<close> in category \<open>danger\<close>, redirects, and leaves the tables
  as they were without consulting them.
\<close>

theorem update_wishlist_item_with_id_zero:
  "update_wishlist_item (Some 0) new_target_price s =
     (s\<lparr>app_log := app_log s @
          [(DEBUG, Request_method), (DEBUG, Request_URL),
           (DEBUG, Request_form_data (Update_form (Some 0) new_target_price)),
           (INFO, Attempting_to_update (Some 0) new_target_price),
           (ERROR, Invalid_form_data)],
        flashes := flashes s @ [(Invalid_form_submission, danger)]\<rparr>,
      Inr Redirect_wishlist)"
  by (simp add: update_wishlist_item_def logging_def flash_def Let_def)

theorem update_wishlist_item_with_id_zero_witness:
  "Wishlist_table (fst (update_wishlist_item (Some 0) (Some 3) wished_state)) =
     Wishlist_table wished_state \<and>
   flashes (fst (update_wishlist_item (Some 0) (Some 3) wished_state)) =
     [(Invalid_form_submission, danger)] \<and>
   snd (update_wishlist_item (Some 0) (Some 3) wished_state) = Inr Redirect_wishlist"
  using update_wishlist_item_with_id_zero [of "Some 3" wished_state]
  by (simp add: wished_state_def)


section \<open>Failure of the search request\<close>




section \<open>The candidate filter\<close>

text \<open>
  The condition of line 72 in the specification's words: it holds exactly when every
  whitespace-separated word of the lower-cased query that is longer than two characters
  occurs in the lower-cased name, that is, the name is some text, then the word, then some
  text. A word of one or two characters excludes nothing.
\<close>

lemma all_words_in_name_words:
  "all_words_in_name ucd game_name name \<longleftrightarrow>
     (\<forall>word. whitespace_separated_word ucd word (str_lower ucd game_name) \<and> 2 < length word \<longrightarrow>
        (\<exists>before after. str_lower ucd name = before @ word @ after))"
  by (auto simp: all_words_in_name_def list_all_iff py_in_iff py_split_words)

text \<open>
  Claim C3, as the code has it. With the search request answered, the lookup for a query
  string returns a list, and a dictionary is in that list exactly when it is the
  dictionary of a candidate of the search results such that every whitespace-separated
  word of the lower-cased query longer than two characters occurs in the candidate's
  lower-cased name, and such that the candidate's details request gave a price overview.
  So the words of the query decide which candidates go on to the details request, words
  of one or two characters exclude no candidate (\<open>Half Life\<close> lets \<open>Half-Life 2\<close>
  through), and of those candidates the lookup keeps the ones that have a price.
\<close>

theorem lookup_keeps_matching_candidates:
  assumes "storesearch api q = Body search_results"
  shows "\<exists>logged matching_games.
     get_steam_price_by_name ucd api (Some q) = (logged, Inr matching_games) \<and>
     (\<forall>steam_game.
        steam_game \<in> set matching_games \<longleftrightarrow>
          (\<exists>game price_data.
             game \<in> set search_results \<and>
             (\<forall>word. whitespace_separated_word ucd word (str_lower ucd q) \<and> 2 < length word \<longrightarrow>
                (\<exists>before after. str_lower ucd (item_name game) = before @ word @ after)) \<and>
             appdetails api (item_id game) = Body (Some price_data) \<and>
             steam_game =
               \<lparr>steam_name = item_name game, steam_appid = item_id game,
                steam_price = (case final price_data of
                                 None \<Rightarrow> 0 | Some cents \<Rightarrow> of_int cents / 100)\<rparr>))"
proof -
  let ?kept = "concat (map (\<lambda>game. case appdetails api (item_id game) of
                                   Body (Some price_data) \<Rightarrow>
                                     [\<lparr>steam_name = item_name game, steam_appid = item_id game,
                                       steam_price = normalized_price price_data\<rparr>]
                                 | _ \<Rightarrow> [])
                  (filter (\<lambda>game. all_words_in_name ucd q (item_name game)) search_results))"
  have run: "snd (get_steam_price_by_name ucd api (Some q)) = Inr ?kept"
    using assms by (simp add: get_steam_price_by_name_def py_format_def matching_loop_Some)
  have mem: "steam_game \<in> set ?kept \<longleftrightarrow>
      (\<exists>game price_data. game \<in> set search_results \<and>
         all_words_in_name ucd q (item_name game) \<and>
         appdetails api (item_id game) = Body (Some price_data) \<and>
         steam_game = \<lparr>steam_name = item_name game, steam_appid = item_id game,
                       steam_price = normalized_price price_data\<rparr>)" for steam_game
  proof
    assume "steam_game \<in> set ?kept"
    then obtain game where g: "game \<in> set search_results"
      "all_words_in_name ucd q (item_name game)"
      and sg: "steam_game \<in> set (case appdetails api (item_id game) of
                                   Body (Some price_data) \<Rightarrow>
                                     [\<lparr>steam_name = item_name game, steam_appid = item_id game,
                                       steam_price = normalized_price price_data\<rparr>]
                                 | _ \<Rightarrow> [])"
      by auto
    have "\<exists>price_data. appdetails api (item_id game) = Body (Some price_data) \<and>
        steam_game = \<lparr>steam_name = item_name game, steam_appid = item_id game,
                        steam_price = normalized_price price_data\<rparr>"
    proof (cases "appdetails api (item_id game)")
      case (RequestException e)
      with sg show ?thesis by simp
    next
      case (Body answer)
      with sg show ?thesis by (cases answer) simp_all
    qed
    with g show "\<exists>game price_data. game \<in> set search_results \<and>
         all_words_in_name ucd q (item_name game) \<and>
         appdetails api (item_id game) = Body (Some price_data) \<and>
         steam_game = \<lparr>steam_name = item_name game, steam_appid = item_id game,
                       steam_price = normalized_price price_data\<rparr>"
      by blast
  next
    assume "\<exists>game price_data. game \<in> set search_results \<and>
         all_words_in_name ucd q (item_name game) \<and>
         appdetails api (item_id game) = Body (Some price_data) \<and>
         steam_game = \<lparr>steam_name = item_name game, steam_appid = item_id game,
                       steam_price = normalized_price price_data\<rparr>"
    then show "steam_game \<in> set ?kept" by (force simp: image_iff)
  qed
  obtain logged where "get_steam_price_by_name ucd api (Some q) = (logged, Inr ?kept)"
    using run by (cases "get_steam_price_by_name ucd api (Some q)") auto
  then show ?thesis
    using mem by (auto simp: all_words_in_name_words normalized_price_eq)
qed

theorem lookup_keeps_matching_candidates_witness:
  "storesearch partial_api (ascii ''portal'') =
     Body [\<lparr>item_name = ascii ''Portal Demo'', item_id = 410\<rparr>,
           \<lparr>item_name = ascii ''Portal'', item_id = 400\<rparr>,
           \<lparr>item_name = ascii ''Portal Free'', item_id = 420\<rparr>,
           \<lparr>item_name = ascii ''Half-Life'', item_id = 70\<rparr>,
           \<lparr>item_name = ascii ''Portal 2'', item_id = 620\<rparr>] \<and>
   all_words_in_name basic_latin (ascii ''portal'') (ascii ''Portal 2'') \<and>
   appdetails partial_api 620 = Body (Some \<lparr>final = Some 1999\<rparr>) \<and>
   \<lparr>steam_name = ascii ''Portal 2'', steam_appid = 620, steam_price = 1999 / 100\<rparr>
     \<in> set (projr (snd (get_steam_price_by_name basic_latin partial_api (Some (ascii ''portal''))))) \<and>
   all_words_in_name basic_latin (ascii ''Half Life'') (ascii ''Half-Life 2'') \<and>
   all_words_in_name basic_latin (ascii ''a Portal'') (ascii ''Portal 2'') \<and>
   \<not> all_words_in_name basic_latin (ascii ''Portal two'') (ascii ''Portal 2'')"
proof -
  let ?items = "[\<lparr>item_name = ascii ''Portal Demo'', item_id = 410\<rparr>,
           \<lparr>item_name = ascii ''Portal'', item_id = 400\<rparr>,
           \<lparr>item_name = ascii ''Portal Free'', item_id = 420\<rparr>,
           \<lparr>item_name = ascii ''Half-Life'', item_id = 70\<rparr>,
           \<lparr>item_name = ascii ''Portal 2'', item_id = 620\<rparr>]"
  let ?game = "\<lparr>item_name = ascii ''Portal 2'', item_id = 620\<rparr>"
  have 1: "storesearch partial_api (ascii ''portal'') = Body ?items"
    by (simp add: partial_api_def)
  have 2: "all_words_in_name basic_latin (ascii ''portal'') (ascii ''Portal 2'')" by code_simp
  have 3: "appdetails partial_api 620 = Body (Some \<lparr>final = Some 1999\<rparr>)"
    by (simp add: partial_api_def)
  have 4: "all_words_in_name basic_latin (ascii ''Half Life'') (ascii ''Half-Life 2'')"
    by code_simp
  have 5: "all_words_in_name basic_latin (ascii ''a Portal'') (ascii ''Portal 2'')"
    by code_simp
  have 6: "\<not> all_words_in_name basic_latin (ascii ''Portal two'') (ascii ''Portal 2'')"
    by code_simp
  from lookup_keeps_matching_candidates [OF 1, of basic_latin]
  obtain logged matching_games where
    run: "get_steam_price_by_name basic_latin partial_api (Some (ascii ''portal'')) =
            (logged, Inr matching_games)" and
    kept: "\<And>steam_game. steam_game \<in> set matching_games \<longleftrightarrow>
          (\<exists>game price_data.
             game \<in> set ?items \<and>
             (\<forall>word. whitespace_separated_word basic_latin word
                        (str_lower basic_latin (ascii ''portal'')) \<and> 2 < length word \<longrightarrow>
                (\<exists>before after. str_lower basic_latin (item_name game) = before @ word @ after)) \<and>
             appdetails partial_api (item_id game) = Body (Some price_data) \<and>
             steam_game =
               \<lparr>steam_name = item_name game, steam_appid = item_id game,
                steam_price = (case final price_data of
                                 None \<Rightarrow> 0 | Some cents \<Rightarrow> of_int cents / 100)\<rparr>)"
    by blast
  have words: "\<forall>word. whitespace_separated_word basic_latin word
                  (str_lower basic_latin (ascii ''portal'')) \<and> 2 < length word \<longrightarrow>
          (\<exists>before after. str_lower basic_latin (item_name ?game) = before @ word @ after)"
    using 2 by (simp add: all_words_in_name_words)
  have "?game \<in> set ?items" by simp
  moreover have "appdetails partial_api (item_id ?game) = Body (Some \<lparr>final = Some 1999\<rparr>)"
    using 3 by simp
  moreover have "\<lparr>steam_name = ascii ''Portal 2'', steam_appid = 620, steam_price = 1999 / 100\<rparr> =
      \<lparr>steam_name = item_name ?game, steam_appid = item_id ?game,
       steam_price = (case final \<lparr>final = Some 1999\<rparr> of
                        None \<Rightarrow> 0 | Some cents \<Rightarrow> of_int cents / 100)\<rparr>"
    by simp
  ultimately have "\<lparr>steam_name = ascii ''Portal 2'', steam_appid = 620,
      steam_price = 1999 / 100\<rparr> \<in> set matching_games"
    using words kept by blast
  then show ?thesis using 1 2 3 4 5 6 run by simp
qed

text \<open>
  Claim C3 as stated makes the words of the query the only condition for keeping a
  candidate. In the example the candidate \<open>Portal Demo\<close> (application 410) meets it: the
  lower-cased query has the one word \<open>portal\<close>, which occurs in the lower-cased name.
  Its details request fails, and the lookup returns only \<open>Portal\<close> and \<open>Portal 2\<close>.
\<close>

theorem matching_candidate_without_price_not_kept:
  "py_split basic_latin (str_lower basic_latin (ascii ''portal'')) = [ascii ''portal''] \<and>
   str_lower basic_latin (ascii ''Portal Demo'') = [] @ ascii ''portal'' @ ascii '' demo'' \<and>
   all_words_in_name basic_latin (ascii ''portal'') (ascii ''Portal Demo'') \<and>
   appdetails partial_api 410 = RequestException ''502 Server Error'' \<and>
   storesearch partial_api (ascii ''portal'') =
     Body [\<lparr>item_name = ascii ''Portal Demo'', item_id = 410\<rparr>,
           \<lparr>item_name = ascii ''Portal'', item_id = 400\<rparr>,
           \<lparr>item_name = ascii ''Portal Free'', item_id = 420\<rparr>,
           \<lparr>item_name = ascii ''Half-Life'', item_id = 70\<rparr>,
           \<lparr>item_name = ascii ''Portal 2'', item_id = 620\<rparr>] \<and>
   map steam_appid
     (projr (snd (get_steam_price_by_name basic_latin partial_api (Some (ascii ''portal''))))) =
     [400, 620]"
proof -
  have "py_split basic_latin (str_lower basic_latin (ascii ''portal'')) = [ascii ''portal'']"
    by code_simp
  moreover have "str_lower basic_latin (ascii ''Portal Demo'') =
      [] @ ascii ''portal'' @ ascii '' demo''"
    by code_simp
  moreover have "all_words_in_name basic_latin (ascii ''portal'') (ascii ''Portal Demo'')"
    by code_simp
  moreover have "appdetails partial_api 410 = RequestException ''502 Server Error''"
    by (simp add: partial_api_def)
  moreover have "storesearch partial_api (ascii ''portal'') =
     Body [\<lparr>item_name = ascii ''Portal Demo'', item_id = 410\<rparr>,
           \<lparr>item_name = ascii ''Portal'', item_id = 400\<rparr>,
           \<lparr>item_name = ascii ''Portal Free'', item_id = 420\<rparr>,
           \<lparr>item_name = ascii ''Half-Life'', item_id = 70\<rparr>,
           \<lparr>item_name = ascii ''Portal 2'', item_id = 620\<rparr>]"
    by (simp add: partial_api_def)
  ultimately show ?thesis by (simp add: partial_lookup)
qed


section \<open>Price normalization\<close>

text \<open>
  Claim C4. For every candidate that passes the filter and whose details request gives a
  price overview, the lookup returns a dictionary for it whose price is the overview's
  \<open>final\<close> amount divided by 100, and 0 when that amount is zero or null; so 1999
  gives 19.99. (Prices are the rationals the floats stand for.)
\<close>

theorem lookup_normalizes_price:
  assumes "storesearch api q = Body search_results"
    and "game \<in> set search_results"
    and "all_words_in_name ucd q (item_name game)"
    and "appdetails api (item_id game) = Body (Some price_data)"
  shows "\<exists>logged matching_games.
           get_steam_price_by_name ucd api (Some q) = (logged, Inr matching_games) \<and>
           \<lparr>steam_name = item_name game, steam_appid = item_id game,
            steam_price = (case final price_data of
                             None \<Rightarrow> 0 | Some cents \<Rightarrow> of_int cents / 100)\<rparr>
             \<in> set matching_games"
proof -
  have "\<lparr>steam_name = item_name game, steam_appid = item_id game,
          steam_price = normalized_price price_data\<rparr>
        \<in> set (concat (map (\<lambda>game. case appdetails api (item_id game) of
                              Body (Some price_data) \<Rightarrow>
                                [\<lparr>steam_name = item_name game, steam_appid = item_id game,
                                  steam_price = normalized_price price_data\<rparr>]
                            | _ \<Rightarrow> [])
                  (filter (\<lambda>game. all_words_in_name ucd q (item_name game)) search_results)))"
    using assms(2-4) by (force simp: image_iff)
  then show ?thesis
    using assms(1)
    by (simp add: get_steam_price_by_name_def py_format_def matching_loop_Some
        normalized_price_eq)
qed

theorem lookup_normalizes_price_witness:
  "storesearch portal_api (ascii ''Portal'') =
     Body [\<lparr>item_name = ascii ''Portal'', item_id = 400\<rparr>, \<lparr>item_name = ascii ''Portal 2'', item_id = 620\<rparr>] \<and>
   all_words_in_name basic_latin (ascii ''Portal'') (ascii ''Portal 2'') \<and>
   appdetails portal_api 620 = Body (Some \<lparr>final = Some 1999\<rparr>) \<and>
   (\<exists>logged matching_games.
      get_steam_price_by_name basic_latin portal_api (Some (ascii ''Portal'')) = (logged, Inr matching_games) \<and>
      \<lparr>steam_name = ascii ''Portal 2'', steam_appid = 620, steam_price = 1999 / 100\<rparr>
        \<in> set matching_games)"
proof -
  have 1: "storesearch portal_api (ascii ''Portal'') =
     Body [\<lparr>item_name = ascii ''Portal'', item_id = 400\<rparr>, \<lparr>item_name = ascii ''Portal 2'', item_id = 620\<rparr>]"
    by (simp add: portal_api_def)
  have 2: "\<lparr>item_name = ascii ''Portal 2'', item_id = 620\<rparr>
             \<in> set [\<lparr>item_name = ascii ''Portal'', item_id = 400\<rparr>,
                    \<lparr>item_name = ascii ''Portal 2'', item_id = 620\<rparr>]"
    by simp
  have 3: "all_words_in_name basic_latin (ascii ''Portal'') (item_name \<lparr>item_name = ascii ''Portal 2'', item_id = 620\<rparr>)"
    by code_simp
  have 4: "appdetails portal_api (item_id \<lparr>item_name = ascii ''Portal 2'', item_id = 620\<rparr>) =
             Body (Some \<lparr>final = Some 1999\<rparr>)"
    by (simp add: portal_api_def)
  show ?thesis
    using 1 3 4 lookup_normalizes_price [OF 1 2 3 4] by simp
qed


section \<open>Failure of a details request\<close>

text \<open>
  Claim C6, as the code has it. With the search request answered and the query a string,
  the lookup raises nothing and its result is determined candidate by candidate, over the
  candidates that pass the filter and in their order: a candidate whose details request
  fails contributes one error line with its application id to the log and nothing to the
  list; a candidate whose details have no price overview contributes nothing to either,
  so it is dropped without a log line; every other candidate contributes its dictionary.
  A failed or priceless candidate is thus the only one left out.
\<close>

theorem details_failure_drops_one_candidate:
  assumes "storesearch api q = Body search_results"
  shows "get_steam_price_by_name ucd api (Some q) =
     (let candidates = filter (\<lambda>game. all_words_in_name ucd q (item_name game)) search_results
      in (concat (map (\<lambda>game. case appdetails api (item_id game) of
                                  RequestException e \<Rightarrow>
                                    [(ERROR, Failed_to_fetch_price_data (item_id game) e)]
                                | Body price_data \<Rightarrow> [])
                      candidates),
          Inr (concat (map (\<lambda>game. case appdetails api (item_id game) of
                                       Body (Some price_data) \<Rightarrow>
                                         [\<lparr>steam_name = item_name game,
                                           steam_appid = item_id game,
                                           steam_price = normalized_price price_data\<rparr>]
                                     | _ \<Rightarrow> [])
                           candidates))))"
  using assms
  by (simp add: get_steam_price_by_name_def py_format_def matching_loop_Some Let_def)

theorem details_failure_drops_one_candidate_witness:
  "storesearch partial_api (ascii ''portal'') =
     Body [\<lparr>item_name = ascii ''Portal Demo'', item_id = 410\<rparr>,
           \<lparr>item_name = ascii ''Portal'', item_id = 400\<rparr>,
           \<lparr>item_name = ascii ''Portal Free'', item_id = 420\<rparr>,
           \<lparr>item_name = ascii ''Half-Life'', item_id = 70\<rparr>,
           \<lparr>item_name = ascii ''Portal 2'', item_id = 620\<rparr>] \<and>
   appdetails partial_api 410 = RequestException ''502 Server Error'' \<and>
   appdetails partial_api 420 = Body None \<and>
   get_steam_price_by_name basic_latin partial_api (Some (ascii ''portal'')) =
     ([(ERROR, Failed_to_fetch_price_data 410 ''502 Server Error'')],
      Inr [\<lparr>steam_name = ascii ''Portal'', steam_appid = 400, steam_price = 499 / 100\<rparr>,
           \<lparr>steam_name = ascii ''Portal 2'', steam_appid = 620, steam_price = 1999 / 100\<rparr>])"
proof -
  have 1: "storesearch partial_api (ascii ''portal'') =
     Body [\<lparr>item_name = ascii ''Portal Demo'', item_id = 410\<rparr>,
           \<lparr>item_name = ascii ''Portal'', item_id = 400\<rparr>,
           \<lparr>item_name = ascii ''Portal Free'', item_id = 420\<rparr>,
           \<lparr>item_name = ascii ''Half-Life'', item_id = 70\<rparr>,
           \<lparr>item_name = ascii ''Portal 2'', item_id = 620\<rparr>]"
    by (simp add: partial_api_def)
  have 2: "all_words_in_name basic_latin (ascii ''portal'') (ascii ''Portal Demo'')" "all_words_in_name basic_latin (ascii ''portal'') (ascii ''Portal'')"
    "all_words_in_name basic_latin (ascii ''portal'') (ascii ''Portal Free'')" "\<not> all_words_in_name basic_latin (ascii ''portal'') (ascii ''Half-Life'')"
    "all_words_in_name basic_latin (ascii ''portal'') (ascii ''Portal 2'')"
    by code_simp+
  have 3: "appdetails partial_api 410 = RequestException ''502 Server Error''"
    "appdetails partial_api 420 = Body None"
    "appdetails partial_api 400 = Body (Some \<lparr>final = Some 499\<rparr>)"
    "appdetails partial_api 620 = Body (Some \<lparr>final = Some 1999\<rparr>)"
    by (simp_all add: partial_api_def)
  show ?thesis
    using 1 3(1,2) details_failure_drops_one_candidate [OF 1, where ucd = basic_latin]
    by (simp add: Let_def 2 3 normalized_price_def)
qed


text \<open>
  Claim C6 as stated has the external identifier logged for every dropped candidate. That
  fails for a candidate without price data: in the example, application 420 passes the
  filter, its details carry no price overview, it is left out of the result, and the only
  line logged is the one for application 410, whose request failed.
\<close>

theorem priceless_candidate_dropped_without_log_line:
  "all_words_in_name basic_latin (ascii ''portal'') (ascii ''Portal Free'') \<and>
   appdetails partial_api 420 = Body None \<and>
   snd (get_steam_price_by_name basic_latin partial_api (Some (ascii ''portal''))) =
     Inr [\<lparr>steam_name = ascii ''Portal'', steam_appid = 400, steam_price = 499 / 100\<rparr>,
          \<lparr>steam_name = ascii ''Portal 2'', steam_appid = 620, steam_price = 1999 / 100\<rparr>] \<and>
   fst (get_steam_price_by_name basic_latin partial_api (Some (ascii ''portal''))) =
     [(ERROR, Failed_to_fetch_price_data 410 ''502 Server Error'')]"
proof -
  have "all_words_in_name basic_latin (ascii ''portal'') (ascii ''Portal Free'')" by code_simp
  moreover have "appdetails partial_api 420 = Body None" by (simp add: partial_api_def)
  ultimately show ?thesis by (simp add: partial_lookup)
qed


section \<open>Adding to the wishlist twice\<close>

text \<open>
  Claim C7. Let \<open>game_id\<close> be the key of an existing game, and let at most one wishlist
  entry refer to it, as is the case in every state that requests handled one after
  another reach from the empty database (\<open>reachable_at_most_one_entry\<close> below). After two
  runs of the add handler for \<open>game_id\<close>, with any target prices, exactly one wishlist
  entry refers to the game: the second run finds the entry, changes no table and logs that
  the game is already in the wishlist.
\<close>

theorem add_to_wishlist_twice:
  assumes game: "Game_get (Game_table s) (int game_id) = Some game"
    and once: "length (filter (\<lambda>w. Wishlist_game_id w = int game_id) (Wishlist_table s)) \<le> 1"
  shows "let s1 = fst (add_to_wishlist game_id p1 s);
             s2 = fst (add_to_wishlist game_id p2 s1)
         in length (filter (\<lambda>w. Wishlist_game_id w = int game_id) (Wishlist_table s2)) = 1 \<and>
            Wishlist_table s2 = Wishlist_table s1 \<and>
            Game_table s2 = Game_table s \<and>
            app_log s2 = app_log s1 @
              [(DEBUG, Attempting_to_add game_id),
               (DEBUG, Already_in_wishlist (Game_name game)),
               (DEBUG, Redirecting_to_wishlist)]"
proof -
  have gid: "Game_id game = int game_id"
    using game by (auto simp: Game_get_def dest: find_Some_D)
  define s1 where "s1 = fst (add_to_wishlist game_id p1 s)"
  have g1: "Game_table s1 = Game_table s"
    by (simp add: s1_def add_to_wishlist_def logging_def Let_def game split: option.split)
  have one: "length (filter (\<lambda>w. Wishlist_game_id w = int game_id) (Wishlist_table s1)) = 1"
  proof (cases "filter_by_game_id_first (Wishlist_table s) (int game_id)")
    case None
    then have "filter (\<lambda>w. Wishlist_game_id w = int game_id) (Wishlist_table s) = []"
      by (simp add: filter_by_game_id_first_def find_None_filter)
    with None show ?thesis
      by (simp add: s1_def add_to_wishlist_def logging_def Let_def game gid)
  next
    case (Some existing_entry)
    then have "filter (\<lambda>w. Wishlist_game_id w = int game_id) (Wishlist_table s) \<noteq> []"
      using find_None_filter[of "\<lambda>w. Wishlist_game_id w = int game_id" "Wishlist_table s"]
      by (simp add: filter_by_game_id_first_def)
    then have "length (filter (\<lambda>w. Wishlist_game_id w = int game_id) (Wishlist_table s)) = 1"
      using once by (cases "filter (\<lambda>w. Wishlist_game_id w = int game_id) (Wishlist_table s)") auto
    with Some show ?thesis
      by (simp add: s1_def add_to_wishlist_def logging_def Let_def game gid)
  qed
  then have "filter (\<lambda>w. Wishlist_game_id w = int game_id) (Wishlist_table s1) \<noteq> []"
    by auto
  then obtain existing_entry where
    ex: "filter_by_game_id_first (Wishlist_table s1) (int game_id) = Some existing_entry"
    using find_None_filter[of "\<lambda>w. Wishlist_game_id w = int game_id" "Wishlist_table s1"]
    by (auto simp: filter_by_game_id_first_def)
  have game1: "Game_get (Game_table s1) (int game_id) = Some game"
    using game g1 by simp
  have second: "fst (add_to_wishlist game_id p2 s1) =
      s1\<lparr>app_log := app_log s1 @
              [(DEBUG, Attempting_to_add game_id),
               (DEBUG, Already_in_wishlist (Game_name game)),
               (DEBUG, Redirecting_to_wishlist)]\<rparr>"
    by (simp add: add_to_wishlist_def logging_def Let_def game1 gid ex)
  show ?thesis
    unfolding Let_def s1_def[symmetric] second using one g1 by simp
qed

theorem add_to_wishlist_twice_witness:
  "Game_get (Game_table portal_state) (int 1) =
     Some \<lparr>Game_id = 1, Game_name = ascii ''Portal'', Game_steam_id = 400, Game_price = 999 / 100\<rparr> \<and>
   length (filter (\<lambda>w. Wishlist_game_id w = int 1) (Wishlist_table portal_state)) \<le> 1 \<and>
   length (filter (\<lambda>w. Wishlist_game_id w = int 1)
     (Wishlist_table
        (fst (add_to_wishlist 1 None (fst (add_to_wishlist 1 (Some 5) portal_state)))))) = 1"
proof -
  have 1: "Game_get (Game_table portal_state) (int 1) =
     Some \<lparr>Game_id = 1, Game_name = ascii ''Portal'', Game_steam_id = 400, Game_price = 999 / 100\<rparr>"
    by (simp add: portal_state_def Game_get_def)
  have 2: "length (filter (\<lambda>w. Wishlist_game_id w = int 1) (Wishlist_table portal_state)) \<le> 1"
    by (simp add: portal_state_def)
  show ?thesis
    using 1 2 add_to_wishlist_twice [OF 1 2, of "Some 5" None] unfolding Let_def by blast
qed


section \<open>Deleting from the wishlist\<close>

text \<open>
  Claim C8, as the code has it. Let \<open>wishlist_id\<close> be below \<open>2 ^ 63\<close>, a key that
  SQLite can bind. If no wishlist entry has the key \<open>wishlist_id\<close>, the delete handler
  flashes \<open>Wishlist item not found.\<close> in category \<open>danger\<close> and changes nothing else.
  If an entry has that key, keys being distinct (the primary key) and the entry's game
  being stored (the foreign key; both hold in every reachable state, see
  \<open>reachable_consistent\<close> below), the handler removes that entry and no other row, and
  flashes the success notice that names the game. In both cases it redirects to the
  wishlist view.
\<close>

theorem delete_from_wishlist_frame:
  assumes bindable: "wishlist_id < 2 ^ 63"
  shows
  "(int wishlist_id \<notin> set (map Wishlist_id (Wishlist_table s)) \<longrightarrow>
      delete_from_wishlist wishlist_id s =
        (s\<lparr>flashes := flashes s @ [(Wishlist_item_not_found, danger)]\<rparr>, Inr Redirect_wishlist)) \<and>
   (\<forall>item game.
      distinct (map Wishlist_id (Wishlist_table s)) \<and>
      item \<in> set (Wishlist_table s) \<and> Wishlist_id item = int wishlist_id \<and>
      Game_get (Game_table s) (Wishlist_game_id item) = Some game \<longrightarrow>
      delete_from_wishlist wishlist_id s =
        (s\<lparr>Wishlist_table := remove1 item (Wishlist_table s),
           flashes := flashes s @ [(Removed_from_wishlist (Game_name game), success)]\<rparr>,
         Inr Redirect_wishlist))"
proof (intro conjI impI allI)
  assume "int wishlist_id \<notin> set (map Wishlist_id (Wishlist_table s))"
  then have "filter (\<lambda>w. Wishlist_id w = int wishlist_id) (Wishlist_table s) = []"
    by (force simp: filter_empty_conv image_iff)
  then have "Wishlist_get (Wishlist_table s) (int wishlist_id) = None"
    by (simp add: Wishlist_get_def find_None_filter)
  then show "delete_from_wishlist wishlist_id s =
        (s\<lparr>flashes := flashes s @ [(Wishlist_item_not_found, danger)]\<rparr>, Inr Redirect_wishlist)"
    using bindable by (simp add: delete_from_wishlist_def flash_def)
next
  fix item game
  assume h: "distinct (map Wishlist_id (Wishlist_table s)) \<and>
      item \<in> set (Wishlist_table s) \<and> Wishlist_id item = int wishlist_id \<and>
      Game_get (Game_table s) (Wishlist_game_id item) = Some game"
  then have get: "Wishlist_get (Wishlist_table s) (int wishlist_id) = Some item"
    using find_distinct_key[of Wishlist_id "Wishlist_table s" item]
    by (simp add: Wishlist_get_def)
  have del: "delete_row (int wishlist_id) (Wishlist_table s) = remove1 item (Wishlist_table s)"
    using h filter_neq_remove1[of Wishlist_id "Wishlist_table s" item]
    by (simp add: delete_row_def)
  show "delete_from_wishlist wishlist_id s =
        (s\<lparr>Wishlist_table := remove1 item (Wishlist_table s),
           flashes := flashes s @ [(Removed_from_wishlist (Game_name game), success)]\<rparr>,
         Inr Redirect_wishlist)"
    using h bindable by (simp add: delete_from_wishlist_def flash_def get del)
qed

theorem delete_from_wishlist_frame_witness:
  "(7::nat) < 2 ^ 63 \<and> (2::nat) < 2 ^ 63 \<and>
   int 7 \<notin> set (map Wishlist_id (Wishlist_table wished_state)) \<and>
   delete_from_wishlist 7 wished_state =
     (wished_state\<lparr>flashes := [(Wishlist_item_not_found, danger)]\<rparr>, Inr Redirect_wishlist) \<and>
   distinct (map Wishlist_id (Wishlist_table wished_state)) \<and>
   \<lparr>Wishlist_id = 2, Wishlist_game_id = 2, Wishlist_target_price = None\<rparr>
     \<in> set (Wishlist_table wished_state) \<and>
   delete_from_wishlist 2 wished_state =
     (wished_state\<lparr>Wishlist_table :=
         [\<lparr>Wishlist_id = 1, Wishlist_game_id = 1, Wishlist_target_price = Some 5\<rparr>],
        flashes := [(Removed_from_wishlist (ascii ''Portal 2''), success)]\<rparr>,
      Inr Redirect_wishlist)"
proof -
  have 0: "(7::nat) < 2 ^ 63" "(2::nat) < 2 ^ 63" by simp_all
  have 1: "int 7 \<notin> set (map Wishlist_id (Wishlist_table wished_state))"
    by (simp add: wished_state_def)
  have 2: "distinct (map Wishlist_id (Wishlist_table wished_state)) \<and>
      \<lparr>Wishlist_id = 2, Wishlist_game_id = 2, Wishlist_target_price = None\<rparr>
        \<in> set (Wishlist_table wished_state) \<and>
      Wishlist_id \<lparr>Wishlist_id = 2, Wishlist_game_id = 2, Wishlist_target_price = None\<rparr> = int 2 \<and>
      Game_get (Game_table wished_state)
        (Wishlist_game_id \<lparr>Wishlist_id = 2, Wishlist_game_id = 2, Wishlist_target_price = None\<rparr>) =
        Some \<lparr>Game_id = 2, Game_name = ascii ''Portal 2'', Game_steam_id = 620,
              Game_price = 1999 / 100\<rparr>"
    by (simp add: wished_state_def Game_get_def)
  have a: "delete_from_wishlist 7 wished_state =
     (wished_state\<lparr>flashes := flashes wished_state @ [(Wishlist_item_not_found, danger)]\<rparr>,
      Inr Redirect_wishlist)"
    using 1 delete_from_wishlist_frame [OF 0(1), of wished_state] by blast
  have b: "delete_from_wishlist 2 wished_state =
     (wished_state\<lparr>Wishlist_table :=
         remove1 \<lparr>Wishlist_id = 2, Wishlist_game_id = 2, Wishlist_target_price = None\<rparr>
           (Wishlist_table wished_state),
        flashes := flashes wished_state @ [(Removed_from_wishlist
          (Game_name \<lparr>Game_id = 2, Game_name = ascii ''Portal 2'', Game_steam_id = 620,
              Game_price = 1999 / 100\<rparr>), success)]\<rparr>,
      Inr Redirect_wishlist)"
    using 2 delete_from_wishlist_frame [OF 0(2), of wished_state] by blast
  show ?thesis
    using 0 1 2 a b by (simp add: wished_state_def)
qed

text \<open>
  Claim C8 as stated speaks of every \<open>wishlist_id\<close>. The route accepts the digits of
  \<open>2 ^ 63\<close>, no entry has that key, and the handler raises \<open>OverflowError\<close> at the
  lookup: it leaves the state as it was, with no notice flashed and no redirect.
\<close>

theorem delete_from_wishlist_unbindable_id:
  "int 9223372036854775808 \<notin> set (map Wishlist_id (Wishlist_table wished_state)) \<and>
   delete_from_wishlist 9223372036854775808 wished_state = (wished_state, Inl OverflowError)"
  by (simp add: delete_from_wishlist_def wished_state_def)


section \<open>The search handler: what is stored and what is shown\<close>

text \<open>
  The loop run when the local query found rows changes prices only: the keys, names and
  application ids of the table are as before, so no row is added.
\<close>

lemma update_loop_ids: "map Game_id (update_loop steam_games rows) = map Game_id rows"
  by (induction steam_games arbitrary: rows) (simp_all add: set_price_ids split: option.split)

lemma update_loop_names: "map Game_name (update_loop steam_games rows) = map Game_name rows"
  by (induction steam_games arbitrary: rows) (simp_all add: set_price_names split: option.split)

lemma update_loop_steam_ids:
  "map Game_steam_id (update_loop steam_games rows) = map Game_steam_id rows"
  by (induction steam_games arbitrary: rows)
     (simp_all add: set_price_steam_ids split: option.split)

text \<open>
  The loop run when the local query found nothing, when it raises nothing: the table it
  leaves is the old rows (with the same keys) followed by the added rows, the keys of the
  added rows are new, and \<open>new_games\<close> grows by exactly the added rows.
\<close>

lemma insert_loop_result:
  "insert_loop steam_games rows new_games = (lines, Inr (rows', new_games')) \<Longrightarrow>
   \<exists>kept added. rows' = kept @ added \<and> map Game_id kept = map Game_id rows \<and>
      new_games' = new_games @ map Game_id added \<and>
      (\<forall>g\<in>set added. Game_id g \<notin> set (map Game_id rows))"
proof (induction steam_games arbitrary: rows new_games lines)
  case Nil
  then have "rows' = rows @ [] \<and> map Game_id rows = map Game_id rows \<and>
      new_games' = new_games @ map Game_id [] \<and>
      (\<forall>g\<in>set []. Game_id g \<notin> set (map Game_id rows))" by simp
  then show ?case by blast
next
  case (Cons steam_game steam_games)
  show ?case
  proof (cases "filter_by_steam_id_first rows (steam_appid steam_game)")
    case (Some existing_game)
    let ?rows1 = "set_price (Game_id existing_game) (steam_price steam_game) rows"
    from Cons.prems Some obtain later where
      "insert_loop steam_games ?rows1 new_games = (later, Inr (rows', new_games'))"
      by (auto split: prod.splits)
    from Cons.IH[OF this] show ?thesis by (simp add: set_price_ids)
  next
    case None
    let ?new = "\<lparr>Game_id = next_rowid (map Game_id rows), Game_name = steam_name steam_game,
                  Game_steam_id = steam_appid steam_game, Game_price = steam_price steam_game\<rparr>"
    from Cons.prems None have
      run: "insert_loop steam_games (rows @ [?new]) (new_games @ [Game_id ?new]) =
              (lines, Inr (rows', new_games'))"
      by (auto simp: Let_def split: if_splits)
    from Cons.IH[OF run] obtain kept added where
      r: "rows' = kept @ added" and
      k: "map Game_id kept = map Game_id (rows @ [?new])" and
      n: "new_games' = (new_games @ [Game_id ?new]) @ map Game_id added" and
      f: "\<forall>g\<in>set added. Game_id g \<notin> set (map Game_id (rows @ [?new]))"
      by blast
    from k have "kept \<noteq> []" by auto
    then obtain kept0 g0 where kept: "kept = kept0 @ [g0]"
      by (metis rev_exhaust)
    with k have k0: "map Game_id kept0 = map Game_id rows" and g0: "Game_id g0 = Game_id ?new"
      by simp_all
    have fresh: "Game_id g0 \<notin> set (map Game_id rows)"
      using next_rowid_fresh[of "map Game_id rows"] g0 by simp
    have "rows' = kept0 @ (g0 # added)" using r kept by simp
    moreover have "new_games' = new_games @ map Game_id (g0 # added)" using n g0 by simp
    moreover have "\<forall>g\<in>set (g0 # added). Game_id g \<notin> set (map Game_id rows)"
      using f fresh by auto
    ultimately show ?thesis using k0 by blast
  qed
qed

lemma insert_loop_new_rows:
  assumes "insert_loop steam_games rows [] = (lines, Inr (rows', new_games))"
  shows "new_games = map Game_id (filter (\<lambda>g. Game_id g \<notin> set (map Game_id rows)) rows')"
proof -
  from insert_loop_result[OF assms] obtain kept added where
    r: "rows' = kept @ added" and k: "map Game_id kept = map Game_id rows" and
    n: "new_games = map Game_id added" and
    f: "\<forall>g\<in>set added. Game_id g \<notin> set (map Game_id rows)"
    by auto
  have "\<forall>g\<in>set kept. Game_id g \<in> set (map Game_id rows)"
    using k by (metis image_eqI list.set_map)
  then have "filter (\<lambda>g. Game_id g \<notin> set (map Game_id rows)) kept = []"
    by (simp add: filter_empty_conv)
  moreover have "filter (\<lambda>g. Game_id g \<notin> set (map Game_id rows)) added = added"
    using f by (simp add: filter_id_conv)
  ultimately show ?thesis using r n by simp
qed

text \<open>
  With a query that is a string the lookup raises nothing, and then a search whose local
  query found rows always returns its page.
\<close>

lemma lookup_returns_on_string: "\<exists>logged steam_games.
  get_steam_price_by_name ucd api (Some q) = (logged, Inr steam_games)"
  by (cases "storesearch api q")
     (simp_all add: get_steam_price_by_name_def py_format_def matching_loop_Some)

lemma search_with_local_rows_returns:
  assumes "filter_name_ilike (Game_table s) (Some q) \<noteq> []"
  shows "\<exists>s'. search ucd api (Some q) s =
           (s', Inr (Index_page (Some (map Game_id (filter_name_ilike (Game_table s) (Some q)))))) \<and>
         map Game_id (Game_table s') = map Game_id (Game_table s) \<and>
         map Game_name (Game_table s') = map Game_name (Game_table s) \<and>
         map Game_steam_id (Game_table s') = map Game_steam_id (Game_table s)"
proof -
  obtain logged steam_games where
    "get_steam_price_by_name ucd api (Some q) = (logged, Inr steam_games)"
    using lookup_returns_on_string by blast
  with assms show ?thesis
    by (simp add: search_def logging_def Let_def update_loop_ids update_loop_names
        update_loop_steam_ids)
qed

text \<open>
  Claim C2. Whenever the search handler returns a page, the rows on the page are chosen as
  follows. If the local query of line 108 found rows, the page shows exactly those rows, in
  the order found, whatever the refresh did. If it found none, the page shows exactly the
  rows that the request inserted, that is the rows of the table afterwards whose key was
  not in the table before; a row whose price was only updated is not among them. If it
  found none and the lookup returned the empty list, the page shows no row. (A row on the
  page is the session's object for that key: what the template prints of it is read after
  the commits.)
\<close>

theorem search_response_selection:
  assumes "search ucd api game_name s = (s', Inr page)"
  shows "(filter_name_ilike (Game_table s) game_name \<noteq> [] \<longrightarrow>
            page = Index_page (Some (map Game_id (filter_name_ilike (Game_table s) game_name)))) \<and>
         (filter_name_ilike (Game_table s) game_name = [] \<longrightarrow>
            page = Index_page (Some (map Game_id
                     (filter (\<lambda>g. Game_id g \<notin> set (map Game_id (Game_table s)))
                        (Game_table s'))))) \<and>
         (filter_name_ilike (Game_table s) game_name = [] \<and>
          snd (get_steam_price_by_name ucd api game_name) = Inr [] \<longrightarrow>
            page = Index_page (Some []))"
proof (cases "filter_name_ilike (Game_table s) game_name = []")
  case False
  with assms show ?thesis
    by (auto simp: search_def logging_def Let_def split: prod.splits sum.splits if_splits)
next
  case True
  obtain logged r where look: "get_steam_price_by_name ucd api game_name = (logged, r)"
    by (cases "get_steam_price_by_name ucd api game_name")
  with assms True obtain steam_games where r: "r = Inr steam_games"
    by (cases r) (auto simp: search_def logging_def Let_def)
  show ?thesis
  proof (cases "steam_games = []")
    case empty: True
    with assms True look r have "page = Index_page (Some [])" and "Game_table s' = Game_table s"
      by (auto simp: search_def logging_def Let_def)
    then show ?thesis using True by (simp add: filter_empty_conv)
  next
    case False
    obtain lines r2 where loop: "insert_loop steam_games (Game_table s) [] = (lines, r2)"
      by (cases "insert_loop steam_games (Game_table s) []")
    with assms True look r False obtain rows new_games where r2: "r2 = Inr (rows, new_games)"
      by (cases r2) (auto simp: search_def logging_def Let_def)
    from assms True look r False loop r2 have
      "page = Index_page (Some new_games)" and "Game_table s' = rows"
      by (auto simp: search_def logging_def Let_def)
    moreover have "new_games =
       map Game_id (filter (\<lambda>g. Game_id g \<notin> set (map Game_id (Game_table s))) rows)"
      using insert_loop_new_rows loop r2 by blast
    ultimately show ?thesis using True look r False by simp
  qed
qed

theorem search_response_selection_witness:
  "snd (search basic_latin portal_api (Some (ascii ''Portal'')) portal_state) = Inr (Index_page (Some [1])) \<and>
   filter_name_ilike (Game_table portal_state) (Some (ascii ''Portal'')) \<noteq> [] \<and>
   map Game_id (filter_name_ilike (Game_table portal_state) (Some (ascii ''Portal''))) = [1] \<and>
   snd (search basic_latin portal_api (Some (ascii ''Portal'')) empty_state) = Inr (Index_page (Some [1, 2])) \<and>
   filter_name_ilike (Game_table empty_state) (Some (ascii ''Portal'')) = [] \<and>
   map Game_id (filter (\<lambda>g. Game_id g \<notin> set (map Game_id (Game_table empty_state)))
     (Game_table (fst (search basic_latin portal_api (Some (ascii ''Portal'')) empty_state)))) = [1, 2]"
proof -
  have a: "filter_name_ilike (Game_table portal_state) (Some (ascii ''Portal'')) \<noteq> []"
    by (simp add: portal_state_matches) (simp add: portal_state_def)
  have b: "filter_name_ilike (Game_table empty_state) (Some (ascii ''Portal'')) = []"
    by (rule empty_state_matches)
  have c: "Index_page (Some [1]) =
      Index_page (Some (map Game_id (filter_name_ilike (Game_table portal_state) (Some (ascii ''Portal'')))))"
    using a search_response_selection [OF search_portal_portal_state] by blast
  have d: "Index_page (Some [1, 2]) =
      Index_page (Some (map Game_id
        (filter (\<lambda>g. Game_id g \<notin> set (map Game_id (Game_table empty_state)))
           (Game_table (fst (search basic_latin portal_api (Some (ascii ''Portal'')) empty_state))))))"
    using b search_response_selection [OF search_portal_empty_state]
    by (simp add: search_portal_empty_state)
  show ?thesis
    using a b c d by (simp add: search_portal_portal_state search_portal_empty_state)
qed

text \<open>
  Claim C1. The claim is that every item the lookup returns is upserted, also when the
  local query found rows. At this input it is not: \<open>Portal\<close> is stored, the lookup for
  \<open>Portal\<close> returns \<open>Portal\<close> (application 400) and \<open>Portal 2\<close> (application 620), and
  no stored row has application id 620. The handler updates the price of \<open>Portal\<close> and
  returns with the table still one row long and no row for application 620, while the
  line it logs (line 123) reports \<open>Portal 2\<close> as updated or added.
\<close>

theorem search_with_local_rows_skips_insert:
  "get_steam_price_by_name basic_latin portal_api (Some (ascii ''Portal'')) =
     ([], Inr [\<lparr>steam_name = ascii ''Portal'', steam_appid = 400, steam_price = 499 / 100\<rparr>,
               \<lparr>steam_name = ascii ''Portal 2'', steam_appid = 620, steam_price = 1999 / 100\<rparr>]) \<and>
   filter_name_ilike (Game_table portal_state) (Some (ascii ''Portal'')) =
     [\<lparr>Game_id = 1, Game_name = ascii ''Portal'', Game_steam_id = 400, Game_price = 999 / 100\<rparr>] \<and>
   filter_by_steam_id_first (Game_table portal_state) 620 = None \<and>
   Game_table (fst (search basic_latin portal_api (Some (ascii ''Portal'')) portal_state)) =
     [\<lparr>Game_id = 1, Game_name = ascii ''Portal'', Game_steam_id = 400, Game_price = 499 / 100\<rparr>] \<and>
   filter_by_steam_id_first
     (Game_table (fst (search basic_latin portal_api (Some (ascii ''Portal'')) portal_state))) 620 = None \<and>
   (DEBUG, Updated_or_added (ascii ''Portal 2'') (1999 / 100))
     \<in> set (app_log (fst (search basic_latin portal_api (Some (ascii ''Portal'')) portal_state))) \<and>
   snd (search basic_latin portal_api (Some (ascii ''Portal'')) portal_state) = Inr (Index_page (Some [1]))"
  by (simp add: portal_lookup search_portal_portal_state portal_state_matches
      filter_by_steam_id_first_def)
     (simp add: portal_state_def)


section \<open>Sequential histories keep the tables consistent\<close>

text \<open>
  Every handler, whether it returns or raises, takes a consistent state to a consistent
  state. So the conditions under which the wishlist claims are stated (distinct keys, a
  stored game for every entry, at most one entry for a game) hold in every state that
  requests handled one after another reach from the empty database.
\<close>

lemma insert_loop_distinct:
  "insert_loop steam_games rows new_games = (lines, Inr (rows', new_games')) \<Longrightarrow>
   distinct (map Game_id rows) \<Longrightarrow> distinct (map Game_name rows) \<Longrightarrow>
   distinct (map Game_id rows') \<and> distinct (map Game_name rows') \<and>
   set (map Game_id rows) \<subseteq> set (map Game_id rows')"
proof (induction steam_games arbitrary: rows new_games lines)
  case Nil
  then show ?case by simp
next
  case (Cons steam_game steam_games)
  show ?case
  proof (cases "filter_by_steam_id_first rows (steam_appid steam_game)")
    case (Some existing_game)
    let ?rows1 = "set_price (Game_id existing_game) (steam_price steam_game) rows"
    from Cons.prems(1) Some obtain later where
      run: "insert_loop steam_games ?rows1 new_games = (later, Inr (rows', new_games'))"
      by (auto split: prod.splits)
    have "distinct (map Game_id ?rows1)" "distinct (map Game_name ?rows1)"
      using Cons.prems(2,3) by (simp_all add: set_price_ids set_price_names)
    from Cons.IH[OF run this] show ?thesis by (simp add: set_price_ids)
  next
    case None
    let ?new = "\<lparr>Game_id = next_rowid (map Game_id rows), Game_name = steam_name steam_game,
                  Game_steam_id = steam_appid steam_game, Game_price = steam_price steam_game\<rparr>"
    from Cons.prems(1) None have
      fresh_name: "steam_name steam_game \<notin> set (map Game_name rows)" and
      run: "insert_loop steam_games (rows @ [?new]) (new_games @ [Game_id ?new]) =
              (lines, Inr (rows', new_games'))"
      by (auto simp: Let_def split: if_splits)
    have "distinct (map Game_id (rows @ [?new]))"
      using Cons.prems(2) next_rowid_fresh[of "map Game_id rows"] by simp
    moreover have "distinct (map Game_name (rows @ [?new]))"
      using Cons.prems(3) fresh_name by simp
    ultimately show ?thesis using Cons.IH[OF run] by auto
  qed
qed

lemma update_loop_id_set: "Game_id ` set (update_loop steam_games rows) = Game_id ` set rows"
  using update_loop_ids[of steam_games rows] by (metis list.set_map)

lemma search_keeps_wishlist:
  "search ucd api game_name s = (s', r) \<Longrightarrow> Wishlist_table s' = Wishlist_table s"
  by (auto simp: search_def logging_def Let_def split: prod.splits sum.splits if_splits)

lemma search_consistent:
  assumes "consistent s"
  shows "consistent (fst (search ucd api game_name s))"
proof -
  obtain s' r where res: "search ucd api game_name s = (s', r)"
    by (cases "search ucd api game_name s")
  have w: "Wishlist_table s' = Wishlist_table s"
    using res by (rule search_keeps_wishlist)
  have "distinct (map Game_id (Game_table s')) \<and> distinct (map Game_name (Game_table s')) \<and>
        set (map Game_id (Game_table s)) \<subseteq> set (map Game_id (Game_table s'))"
  proof (cases "filter_name_ilike (Game_table s) game_name = []")
    case False
    with res assms show ?thesis
      by (auto simp: search_def logging_def Let_def consistent_def update_loop_ids
          update_loop_names update_loop_id_set split: prod.splits sum.splits if_splits)
  next
    case True
    obtain logged lr where look: "get_steam_price_by_name ucd api game_name = (logged, lr)"
      by (cases "get_steam_price_by_name ucd api game_name")
    show ?thesis
    proof (cases lr)
      case (Inl e)
      with res True look assms show ?thesis
        by (auto simp: search_def logging_def Let_def consistent_def)
    next
      case (Inr steam_games)
      show ?thesis
      proof (cases "steam_games = []")
        case empty: True
        with res True look Inr assms show ?thesis
          by (auto simp: search_def logging_def Let_def consistent_def)
      next
        case False
        obtain lines r2 where loop: "insert_loop steam_games (Game_table s) [] = (lines, r2)"
          by (cases "insert_loop steam_games (Game_table s) []")
        show ?thesis
        proof (cases r2)
          case (Inl e)
          with res True look Inr False loop assms show ?thesis
            by (auto simp: search_def logging_def Let_def consistent_def)
        next
          case r2: (Inr p)
          obtain rows new_games where p: "p = (rows, new_games)" by (cases p)
          from res True look Inr False loop r2 p have "Game_table s' = rows"
            by (auto simp: search_def logging_def Let_def)
          moreover have "distinct (map Game_id rows) \<and> distinct (map Game_name rows) \<and>
              set (map Game_id (Game_table s)) \<subseteq> set (map Game_id rows)"
            using insert_loop_distinct[of steam_games "Game_table s" "[]" lines rows new_games]
              loop r2 p assms by (simp add: consistent_def)
          ultimately show ?thesis by simp
        qed
      qed
    qed
  qed
  moreover have "set (map Wishlist_game_id (Wishlist_table s)) \<subseteq> set (map Game_id (Game_table s))"
    using assms by (simp add: consistent_def)
  ultimately have "set (map Wishlist_game_id (Wishlist_table s')) \<subseteq> set (map Game_id (Game_table s'))"
    using w by (metis subset_trans)
  with w assms \<open>distinct (map Game_id (Game_table s')) \<and> distinct (map Game_name (Game_table s')) \<and>
        set (map Game_id (Game_table s)) \<subseteq> set (map Game_id (Game_table s'))\<close>
  show ?thesis by (simp add: res consistent_def)
qed

lemma add_to_wishlist_consistent:
  assumes "consistent s"
  shows "consistent (fst (add_to_wishlist game_id target_price s))"
proof (cases "Game_get (Game_table s) (int game_id)")
  case None
  with assms show ?thesis
    by (simp add: add_to_wishlist_def logging_def Let_def consistent_def)
next
  case (Some game)
  then have g: "Game_id game = int game_id" "game \<in> set (Game_table s)"
    by (auto simp: Game_get_def dest: find_Some_D)
  show ?thesis
  proof (cases "filter_by_game_id_first (Wishlist_table s) (Game_id game)")
    case (Some existing_entry)
    with \<open>Game_get (Game_table s) (int game_id) = Some game\<close> assms show ?thesis
      by (simp add: add_to_wishlist_def logging_def Let_def consistent_def)
  next
    case None
    then have "filter (\<lambda>w. Wishlist_game_id w = Game_id game) (Wishlist_table s) = []"
      by (simp add: filter_by_game_id_first_def find_None_filter)
    then have fresh: "Game_id game \<notin> set (map Wishlist_game_id (Wishlist_table s))"
      by (auto simp: filter_empty_conv)
    have "Game_id game \<in> set (map Game_id (Game_table s))" using g(2) by simp
    with None \<open>Game_get (Game_table s) (int game_id) = Some game\<close> assms fresh show ?thesis
      using next_rowid_fresh[of "map Wishlist_id (Wishlist_table s)"]
      by (simp add: add_to_wishlist_def logging_def Let_def consistent_def)
  qed
qed

lemma delete_from_wishlist_consistent:
  assumes "consistent s"
  shows "consistent (fst (delete_from_wishlist wishlist_id s))"
  using assms
  by (auto simp: delete_from_wishlist_def flash_def delete_row_def consistent_def
      distinct_map_filter split: option.splits)

lemma wishlist_consistent:
  assumes "consistent s"
  shows "consistent (fst (wishlist s))"
  using assms
  by (auto simp: wishlist_def logging_def Let_def consistent_def split: prod.splits option.splits)

lemma set_target_price_ids:
  "map Wishlist_id (set_target_price ident p rows) = map Wishlist_id rows"
  by (induction rows) (simp_all add: set_target_price_def)

lemma set_target_price_game_ids:
  "map Wishlist_game_id (set_target_price ident p rows) = map Wishlist_game_id rows"
  by (induction rows) (simp_all add: set_target_price_def)

lemma set_target_price_game_id_set:
  "Wishlist_game_id ` set (set_target_price ident p rows) = Wishlist_game_id ` set rows"
  using set_target_price_game_ids[of ident p rows] by (metis list.set_map)

lemma update_wishlist_item_consistent:
  assumes "consistent s"
  shows "consistent (fst (update_wishlist_item wishlist_ident new_target_price s))"
  using assms
  by (auto simp: update_wishlist_item_def logging_def flash_def Let_def consistent_def
      set_target_price_ids set_target_price_game_ids set_target_price_game_id_set
      split: option.splits)

lemma reachable_consistent: "reachable s \<Longrightarrow> consistent s"
proof (induction rule: reachable.induct)
  case start
  show ?case by (simp add: consistent_def empty_state_def)
next
  case (after_search s api game_name)
  then show ?case by (simp add: search_consistent)
next
  case (after_add s game_id target_price)
  then show ?case by (simp add: add_to_wishlist_consistent)
next
  case (after_delete s wishlist_id)
  then show ?case by (simp add: delete_from_wishlist_consistent)
next
  case (after_wishlist s)
  then show ?case by (simp add: wishlist_consistent)
next
  case (after_update s wishlist_ident new_target_price)
  then show ?case by (simp add: update_wishlist_item_consistent)
qed

lemma consistent_at_most_one_entry:
  assumes "consistent s"
  shows "length (filter (\<lambda>w. Wishlist_game_id w = ident) (Wishlist_table s)) \<le> 1"
proof -
  have d: "distinct (map Wishlist_game_id (Wishlist_table s))"
    using assms by (simp add: consistent_def)
  have "length (filter (\<lambda>w. Wishlist_game_id w = ident) rows) \<le> 1"
    if "distinct (map Wishlist_game_id rows)" for rows :: "Wishlist list"
    using that
  proof (induction rows)
    case Nil
    show ?case by simp
  next
    case (Cons a rows)
    show ?case
    proof (cases "Wishlist_game_id a = ident")
      case True
      then have "\<forall>w\<in>set rows. Wishlist_game_id w \<noteq> ident" using Cons.prems by (auto simp: image_iff)
      then have "filter (\<lambda>w. Wishlist_game_id w = ident) rows = []"
        by (simp add: filter_empty_conv)
      with True show ?thesis by simp
    next
      case False
      with Cons show ?thesis by simp
    qed
  qed
  with d show ?thesis by blast
qed

lemma consistent_entry_has_game:
  assumes "consistent s" and "item \<in> set (Wishlist_table s)"
  shows "\<exists>game. Game_get (Game_table s) (Wishlist_game_id item) = Some game"
proof -
  have "Wishlist_game_id item \<in> set (map Game_id (Game_table s))"
    using assms by (auto simp: consistent_def)
  then have "filter (\<lambda>g. Game_id g = Wishlist_game_id item) (Game_table s) \<noteq> []"
    by (auto simp: filter_empty_conv)
  then show ?thesis
    using find_None_filter[of "\<lambda>g. Game_id g = Wishlist_game_id item" "Game_table s"]
    by (cases "Game_get (Game_table s) (Wishlist_game_id item)") (auto simp: Game_get_def)
qed

lemma reachable_at_most_one_entry:
  "reachable s \<Longrightarrow> length (filter (\<lambda>w. Wishlist_game_id w = ident) (Wishlist_table s)) \<le> 1"
  using reachable_consistent consistent_at_most_one_entry by blast

lemma reachable_entry_has_game:
  "reachable s \<Longrightarrow> item \<in> set (Wishlist_table s) \<Longrightarrow>
   \<exists>game. Game_get (Game_table s) (Wishlist_game_id item) = Some game"
  using reachable_consistent consistent_entry_has_game by blast

end
